theory Spec2Isabelle
  imports Main "HOL-Library.Multiset" "HOL-Library.Log_Nat"
begin

section \<open>Numbers\<close>

text \<open>
  A JavaScript number is an IEEE 754 double: a finite value, which is a rational number
  \<open>m * 2 ^ e\<close> with \<open>\<bar>m\<bar> < 2 ^ 53\<close> and \<open>- 1074 \<le> e \<le> 971\<close>, negative zero, an infinity
  or NaN. \<open>Finite 0\<close> is the positive zero.
\<close>

datatype number = Finite rat | NegZero | PosInfinity | NegInfinity | NaN

text \<open>The power \<open>2 ^ e\<close> for an integer exponent.\<close>

definition pow2 :: "int \<Rightarrow> rat" where
  "pow2 e = (if 0 \<le> e then 2 ^ nat e else 1 / 2 ^ nat (- e))"

text \<open>
  The binary exponent of a rational \<open>x \<noteq> 0\<close>, the integer \<open>k\<close> with
  \<open>2 ^ k \<le> \<bar>x\<bar> < 2 ^ (k + 1)\<close>, computed from the bit lengths of numerator and denominator.
\<close>

definition ilog2 :: "rat \<Rightarrow> int" where
  "ilog2 x = (case quotient_of \<bar>x\<bar> of (p, q) \<Rightarrow>
      (let d = bitlen p - bitlen q in if pow2 d \<le> \<bar>x\<bar> then d else d - 1))"

text \<open>The nearest integer, a tie going to the even one.\<close>

definition round_half_even :: "rat \<Rightarrow> int" where
  "round_half_even x =
     (let f = \<lfloor>x\<rfloor>; d = x - of_int f
      in if d < 1 / 2 then f else if 1 / 2 < d then f + 1 else if even f then f else f + 1)"

text \<open>
  Rounding of an exact result to a double, in the mode of JavaScript arithmetic (to
  nearest, ties to even): 53 significant bits, exponent at least \<open>- 1074\<close> (subnormal
  numbers), overflow to an infinity from \<open>2 ^ 1024\<close> on. An exact zero is the positive zero.
\<close>

definition round_double :: "rat \<Rightarrow> number" where
  "round_double x =
     (if x = 0 then Finite 0
      else let e = max (ilog2 x - 52) (- 1074);
               r = of_int (round_half_even (x / pow2 e)) * pow2 e
           in if 2 ^ 1024 \<le> \<bar>r\<bar> then (if 0 < x then PosInfinity else NegInfinity)
              else if r = 0 then (if x < 0 then NegZero else Finite 0)
              else Finite r)"

text \<open>The operator \<^verbatim>\<open>+\<close> on numbers.\<close>

fun add :: "number \<Rightarrow> number \<Rightarrow> number" where
  "add NaN y = NaN"
| "add x NaN = NaN"
| "add PosInfinity NegInfinity = NaN"
| "add NegInfinity PosInfinity = NaN"
| "add PosInfinity y = PosInfinity"
| "add x PosInfinity = PosInfinity"
| "add NegInfinity y = NegInfinity"
| "add x NegInfinity = NegInfinity"
| "add NegZero y = y"
| "add x NegZero = x"
| "add (Finite a) (Finite b) = round_double (a + b)"

section \<open>The summation function: index.ts and src/sum/sum.ts\<close>

text \<open>\<^verbatim>\<open>xs.reduce(f, init)\<close>: the callback gets the accumulator and the next element, from the left.\<close>

fun reduce :: "('b \<Rightarrow> 'a \<Rightarrow> 'b) \<Rightarrow> 'b \<Rightarrow> 'a list \<Rightarrow> 'b" where
  "reduce f acc [] = acc"
| "reduce f acc (val # rest) = reduce f (f acc val) rest"

text \<open>
  \<^verbatim>\<open>function sum(...args) { return args.reduce((acc, val) => acc + val, 0); }\<close>,
  the same in both files.
\<close>

definition sum' :: "number list \<Rightarrow> number" where
  "sum' args = reduce (\<lambda>acc val. add acc val) (Finite 0) args"

section \<open>JSON values\<close>

text \<open>
  The value that \<^verbatim>\<open>Bun.file("package.json").json()\<close> gives for the text of a manifest.
  An object is the list of its keys with their values; a key has the value of its first
  entry in the list.
\<close>

datatype json =
    JNull
  | JBool bool
  | JNumber number
  | JString string
  | JArray "json list"
  | JObject "(string \<times> json) list"

text \<open>
  The values that the scripts and the runtime throw: \<^verbatim>\<open>new Error(message)\<close>,
  \<^verbatim>\<open>new TestExecutionError(message, command)\<close> of scripts/test/types.ts, the error of
  \<^verbatim>\<open>execSync\<close> for a command that exits with a status other than zero, and the errors of
  parsing JSON, of reading a property of \<^verbatim>\<open>null\<close> and of reading a file that does not exist.
\<close>

datatype error =
    Error string
  | TestExecutionError string "string option"
  | ExecSyncError string nat
  | SyntaxError
  | TypeError
  | ENOENT

text \<open>
  Reading a property \<^verbatim>\<open>v.k\<close> of such a value, for the keys the scripts read (none is a
  built-in property of a string, a number, a boolean or an array): on \<^verbatim>\<open>null\<close> it
  throws a \<^verbatim>\<open>TypeError\<close>, on an object it gives the value of the key or
  \<^verbatim>\<open>undefined\<close>, on every other value \<^verbatim>\<open>undefined\<close>.
\<close>

fun get :: "json \<Rightarrow> string \<Rightarrow> error + json option" where
  "get JNull k = Inl TypeError"
| "get (JObject kvs) k = Inr (map_of kvs k)"
| "get v k = Inr None"

text \<open>Truthiness of a value read from JSON, or of \<^verbatim>\<open>undefined\<close>.\<close>

fun truthy_json :: "json option \<Rightarrow> bool" where
  "truthy_json None = False"
| "truthy_json (Some JNull) = False"
| "truthy_json (Some (JBool b)) = b"
| "truthy_json (Some (JNumber n)) = (n \<noteq> Finite 0 \<and> n \<noteq> NegZero \<and> n \<noteq> NaN)"
| "truthy_json (Some (JString s)) = (s \<noteq> [])"
| "truthy_json (Some (JArray vs)) = True"
| "truthy_json (Some (JObject kvs)) = True"

text \<open>
  A template literal converts each value it interpolates to a string. For a value read
  from JSON the conversion throws a \<^verbatim>\<open>TypeError\<close> in one case: an object with a key
  \<^verbatim>\<open>toString\<close> of its own, whose value is never a function, so that neither it nor
  the inherited \<^verbatim>\<open>valueOf\<close> gives a primitive. An array is converted by joining the
  conversions of its elements, \<^verbatim>\<open>null\<close> giving the empty string, and throws when one of
  them does. \<^verbatim>\<open>undefined\<close> and all other values have a string.
\<close>

fun unprintable :: "json \<Rightarrow> bool" where
  "unprintable (JObject kvs) = (map_of kvs ''toString'' \<noteq> None)"
| "unprintable (JArray vs) = list_ex unprintable vs"
| "unprintable v = False"

fun ToString_throws :: "json option \<Rightarrow> bool" where
  "ToString_throws None = False"
| "ToString_throws (Some v) = unprintable v"

section \<open>JavaScript strings and arrays\<close>

text \<open>
  The scripts of the repository handle their command line with the string and array
  methods of JavaScript. Each method used is given here as a total, executable function.
  A value that may be \<^verbatim>\<open>undefined\<close> is an \<open>option\<close>.
\<close>

text \<open>\<^verbatim>\<open>s.startsWith(p)\<close>\<close>

definition startsWith :: "string \<Rightarrow> string \<Rightarrow> bool" where
  "startsWith s p = (take (length p) s = p)"

text \<open>\<^verbatim>\<open>xs.includes(x)\<close>\<close>

definition array_includes :: "string list \<Rightarrow> string \<Rightarrow> bool" where
  "array_includes xs x = (x \<in> set xs)"

text \<open>\<^verbatim>\<open>xs.join(sep)\<close>\<close>

fun join :: "string list \<Rightarrow> string \<Rightarrow> string" where
  "join [] sep = []"
| "join [x] sep = x"
| "join (x # y # ys) sep = x @ sep @ join (y # ys) sep"

text \<open>
  \<^verbatim>\<open>s.split(c)\<close> for a separator of one character: the pieces between all occurrences
  of the separator; a string without the separator gives one piece.
\<close>

fun split :: "string \<Rightarrow> char \<Rightarrow> string list" where
  "split [] c = [[]]"
| "split (x # xs) c =
     (if x = c then [] # split xs c
      else (case split xs c of [] \<Rightarrow> [[x]] | p # ps \<Rightarrow> (x # p) # ps))"

text \<open>\<^verbatim>\<open>xs[i]\<close>: \<^verbatim>\<open>undefined\<close> out of range.\<close>

definition item :: "'a list \<Rightarrow> nat \<Rightarrow> 'a option" where
  "item xs i = (if i < length xs then Some (xs ! i) else None)"

text \<open>Truthiness of a value that is a string or \<^verbatim>\<open>undefined\<close>: only a non-empty string is truthy.\<close>

fun truthy :: "string option \<Rightarrow> bool" where
  "truthy None = False"
| "truthy (Some s) = (s \<noteq> [])"

section \<open>Console, external processes, errors and process exit\<close>

text \<open>
  What a script does to the outside is recorded as a trace of events, in order:
  a line written with \<^verbatim>\<open>console.log\<close>, a line written with \<^verbatim>\<open>console.error\<close>, and
  a command handed to \<^verbatim>\<open>execSync\<close>. A line that a template literal builds from values
  read from JSON is recorded as its pieces, the values not converted to text; a
  conversion that throws is part of the operation that writes the line. Characters
  of the console texts that are not ASCII (the pictographs that start many lines, an
  arrow) are left out or written in ASCII, and the line feeds around the texts are left out.
\<close>

datatype piece = Text string | Interpolated "json option"

datatype event =
    ConsoleLog string
  | ConsoleError string
  | ExecSync string
  | ConsoleLogTemplate "piece list"

text \<open>
  The external tools are a parameter: \<open>sh cmd\<close> is the exit status of the process run
  for \<open>cmd\<close>. \<^verbatim>\<open>execSync\<close> throws exactly when that status is not zero; the value
  thrown is \<open>ExecSyncError cmd status\<close>.
\<close>

type_synonym shell = "string \<Rightarrow> nat"

text \<open>
  A script ends by running to the end of the module, by \<^verbatim>\<open>process.exit(n)\<close>, or with an
  error that nothing catches. The runtime turns these into the exit status of the process:
  0, \<open>n\<close>, and 1.
\<close>

datatype outcome = Completed | ProcessExit nat | Uncaught error

fun exit_status :: "outcome \<Rightarrow> nat" where
  "exit_status Completed = 0"
| "exit_status (ProcessExit n) = n"
| "exit_status (Uncaught e) = 1"

text \<open>An awaited operation at the top level of a module, with no handler around it.\<close>

fun top_level :: "event list \<times> (error + unit) \<Rightarrow> event list \<times> outcome" where
  "top_level (evs, Inl e) = (evs, Uncaught e)"
| "top_level (evs, Inr u) = (evs, Completed)"

text \<open>The commands a trace handed to \<^verbatim>\<open>execSync\<close>.\<close>

fun executed :: "event list \<Rightarrow> string list" where
  "executed [] = []"
| "executed (ExecSync c # evs) = c # executed evs"
| "executed (e # evs) = executed evs"

section \<open>The test script: scripts/test\<close>

text \<open>
  The script of scripts/test is the file src/unnamed/part_000, called index.ts here, with
  types.ts, help.ts and utils.ts beside it.
\<close>

record TestOptions =
  coverage :: "bool option"
  watch :: "bool option"
  verbose :: "bool option"
  file' :: "string option"

record ParsedArgs =
  command :: "string option"
  fileArg :: "string option"
  options :: TestOptions

text \<open>
  \<^verbatim>\<open>parseCommandLineArgs\<close> reads \<^verbatim>\<open>process.argv\<close>, whose first two entries are the
  runtime and the script: \<^verbatim>\<open>const [, , command, ...flags] = process.argv\<close>.
\<close>

definition parseCommandLineArgs :: "string list \<Rightarrow> ParsedArgs" where
  "parseCommandLineArgs argv =
     (let command = item argv 2;
          flags = drop 3 argv;
          fileArg = find (\<lambda>flag. \<not> startsWith flag ''--'') flags;
          cleanFlags = filter (\<lambda>flag. startsWith flag ''--'') flags;
          options = \<lparr> coverage = Some (array_includes cleanFlags ''--coverage'' \<or> array_includes cleanFlags ''--cov''),
                      watch = Some (array_includes cleanFlags ''--watch'' \<or> array_includes cleanFlags ''--w''),
                      verbose = Some (array_includes cleanFlags ''--verbose'' \<or> array_includes cleanFlags ''--v''),
                      file' = None \<rparr>
      in \<lparr> command = command, fileArg = fileArg, options = options \<rparr>)"

text \<open>\<^verbatim>\<open>helpMessage\<close> of scripts/test/help.ts, its lines joined by line feeds.\<close>

definition helpMessage :: string where
  "helpMessage = join
     ['''',
      ''Test Script'',
      '''',
      ''Usage: npm run test:<command> [flags]'',
      '''',
      ''Commands:'',
      ''  coverage      Run all tests with coverage [default]'',
      ''  file <name>   Run specific test file with watch'',
      '''',
      ''Flags:'',
      ''  --coverage    Enable coverage reporting (default for most commands)'',
      ''  --verbose     Enable verbose output'',
      ''  --watch       Enable watch mode'',
      '''',
      ''Examples:'',
      ''  npm run test:coverage             # Run tests with coverage'',
      ''  npm run test:file sum.test.ts     # Test specific file'',
      ''''] [CHR 10]"

text \<open>\<^verbatim>\<open>runAllTests\<close> of scripts/test/utils.ts.\<close>

definition runAllTests :: "shell \<Rightarrow> TestOptions \<Rightarrow> event list \<times> (error + unit)" where
  "runAllTests sh opts =
     (let args = [''test''] @ (if coverage opts \<noteq> Some False then [''--coverage''] else []);
          command = ''bun '' @ join args '' '';
          started = [ConsoleLog ''Running all tests with coverage...'',
                     ConsoleLog (''Command: '' @ command),
                     ExecSync command]
      in if sh command = 0
         then (started @ [ConsoleLog ''All tests passed successfully!''], Inr ())
         else (started @ [ConsoleError ''Tests failed''],
               Inl (TestExecutionError ''Test execution failed'' (Some (''bun '' @ join args '' '')))))"

text \<open>\<^verbatim>\<open>runSingleFileTests\<close> of scripts/test/utils.ts.\<close>

definition runSingleFileTests :: "shell \<Rightarrow> string \<Rightarrow> TestOptions \<Rightarrow> event list \<times> (error + unit)" where
  "runSingleFileTests sh filename opts =
     (let args = [''test'', filename] @ [''--watch'']
                 @ (if coverage opts \<noteq> Some False then [''--coverage''] else [])
                 @ (if verbose opts = Some True then [''--verbose''] else []);
          command = ''bun '' @ join args '' '';
          started = [ConsoleLog (''Running tests for file: '' @ filename @ ''...''),
                     ConsoleLog (''Command: '' @ command),
                     ConsoleLog ''Press Ctrl+C to stop watching'',
                     ExecSync command]
      in if sh command = 0
         then (started, Inr ())
         else (started @ [ConsoleError (''Tests failed for file: '' @ filename)],
               Inl (TestExecutionError (''Test execution failed for '' @ filename)
                      (Some (''bun '' @ join args '' '')))))"

text \<open>
  The module body of scripts/test/index.ts: the \<^verbatim>\<open>switch\<close> on the command. The
  \<^verbatim>\<open>default\<close> branch is taken by every command that is none of the three cases, absent
  or not; there \<^verbatim>\<open>!command\<close> holds for an absent command and for the empty string.
\<close>

definition usageError :: "event list \<times> outcome" where
  "usageError = ([ConsoleError ''Please specify a test file to run'',
                  ConsoleLog ''Usage: bun run test:file <filename>''], ProcessExit 1)"

definition test_index :: "shell \<Rightarrow> string list \<Rightarrow> event list \<times> outcome" where
  "test_index sh argv =
     (let parsed = parseCommandLineArgs argv in
      if command parsed = Some ''coverage'' then top_level (runAllTests sh (options parsed))
      else if command parsed = Some ''file'' then
        (if \<not> truthy (fileArg parsed) then usageError
         else top_level (runSingleFileTests sh (the (fileArg parsed)) (options parsed)))
      else if command parsed = Some ''help'' then ([ConsoleLog helpMessage], Completed)
      else if \<not> truthy (command parsed) then
        (case top_level (runAllTests sh (options parsed)) of
           (evs, out) \<Rightarrow> (ConsoleLog helpMessage # evs, out))
      else ([ConsoleLog helpMessage], Completed))"

section \<open>The test script: test.ts\<close>

text \<open>
  The older script test.ts parses \<^verbatim>\<open>process.argv\<close> in its module body, with
  \<^verbatim>\<open>process.argv[2]\<close> and \<^verbatim>\<open>process.argv.slice(3)\<close>, and has operations of its own, which
  throw again the error that \<^verbatim>\<open>execSync\<close> threw.
\<close>

definition test_ts_command :: "string list \<Rightarrow> string option" where
  "test_ts_command argv = item argv 2"

definition test_ts_fileArg :: "string list \<Rightarrow> string option" where
  "test_ts_fileArg argv = find (\<lambda>flag. \<not> startsWith flag ''--'') (drop 3 argv)"

definition test_ts_options :: "string list \<Rightarrow> TestOptions" where
  "test_ts_options argv =
     (let cleanFlags = filter (\<lambda>flag. startsWith flag ''--'') (drop 3 argv)
      in \<lparr> coverage = Some (array_includes cleanFlags ''--coverage'' \<or> array_includes cleanFlags ''--cov''),
           watch = Some (array_includes cleanFlags ''--watch'' \<or> array_includes cleanFlags ''--w''),
           verbose = Some (array_includes cleanFlags ''--verbose'' \<or> array_includes cleanFlags ''--v''),
           file' = None \<rparr>)"

definition test_ts_help :: string where
  "test_ts_help = join
     ['''',
      ''js-lib-go Test Script'',
      '''',
      ''Usage: bun run test.ts <command> [flags]'',
      '''',
      ''Commands:'',
      ''  coverage      Run all tests with coverage [default]'',
      ''  file <name>   Run specific test file with watch'',
      '''',
      ''Flags:'',
      ''  --coverage    Enable coverage reporting (default for most commands)'',
      ''  --verbose     Enable verbose output'',
      ''  --watch       Enable watch mode'',
      '''',
      ''Examples:'',
      ''  bun run test.ts coverage            # Run tests with coverage'',
      ''  bun run test.ts file sum.test.ts    # Test specific file'',
      ''''] [CHR 10]"

definition runTestsWithCoverage :: "shell \<Rightarrow> event list \<times> (error + unit)" where
  "runTestsWithCoverage sh =
     (let args = [''test'', ''--coverage''];
          command = ''bun '' @ join args '' '';
          started = [ConsoleLog ''Running all tests with coverage...'',
                     ConsoleLog (''Command: '' @ command),
                     ExecSync command]
      in if sh command = 0
         then (started @ [ConsoleLog ''All tests passed successfully!''], Inr ())
         else (started @ [ConsoleError ''Tests failed''], Inl (ExecSyncError command (sh command))))"

definition runFileTests :: "shell \<Rightarrow> string \<Rightarrow> TestOptions \<Rightarrow> event list \<times> (error + unit)" where
  "runFileTests sh filename opts =
     (let args = [''test'', filename, ''--watch'']
                 @ (if coverage opts = Some True then [''--coverage''] else [])
                 @ (if verbose opts = Some True then [''--verbose''] else []);
          command = ''bun '' @ join args '' '';
          started = [ConsoleLog (''Running tests for file: '' @ filename @ ''...''),
                     ConsoleLog (''Command: '' @ command),
                     ConsoleLog ''Press Ctrl+C to stop watching'',
                     ExecSync command]
      in if sh command = 0
         then (started, Inr ())
         else (started @ [ConsoleError (''Tests failed for file: '' @ filename)],
               Inl (ExecSyncError command (sh command))))"

definition test_ts_usageError :: "event list \<times> outcome" where
  "test_ts_usageError = ([ConsoleError ''Please specify a test file to run'',
                          ConsoleLog ''Usage: bun test:file <filename>''], ProcessExit 1)"

text \<open>
  The module body of test.ts. The file operation gets
  \<^verbatim>\<open>{...options, coverage: options.coverage ?? true}\<close>.
\<close>

definition test_ts :: "shell \<Rightarrow> string list \<Rightarrow> event list \<times> outcome" where
  "test_ts sh argv =
     (let command = test_ts_command argv;
          fileArg = test_ts_fileArg argv;
          opts = test_ts_options argv
      in if command = Some ''coverage'' then top_level (runTestsWithCoverage sh)
         else if command = Some ''file'' then
           (if \<not> truthy fileArg then test_ts_usageError
            else top_level (runFileTests sh (the fileArg)
                   (opts\<lparr>coverage := (case coverage opts of None \<Rightarrow> Some True | Some b \<Rightarrow> Some b)\<rparr>)))
         else if \<not> truthy command then
           (case top_level (runTestsWithCoverage sh) of
              (evs, out) \<Rightarrow> (ConsoleLog test_ts_help # evs, out))
         else ([ConsoleLog test_ts_help], Completed))"

text \<open>Two environments for concrete runs: every external command succeeds, or every one fails.\<close>

definition all_pass :: shell where
  "all_pass cmd = 0"

definition all_fail :: shell where
  "all_fail cmd = 1"

section \<open>Valued flags: build.ts, scripts/build and publish.ts\<close>

text \<open>
  The build and publish scripts read a flag with a value by the same expression,
  \<^verbatim>\<open>flags.find((f) => f.startsWith(p))?.split("=")[1]\<close>, for a prefix \<open>p\<close> such as
  \<^verbatim>\<open>--target=\<close>: the first token with the prefix, split at every \<^verbatim>\<open>=\<close>, and of the
  pieces the second.
\<close>

definition valued :: "string list \<Rightarrow> string \<Rightarrow> string option" where
  "valued flags p =
     (case find (\<lambda>f. startsWith f p) flags of
        None \<Rightarrow> None
      | Some f \<Rightarrow> item (split f CHR ''='') 1)"

text \<open>\<^verbatim>\<open>v || d\<close> for a value that is a string or \<^verbatim>\<open>undefined\<close>.\<close>

definition or_else :: "string option \<Rightarrow> 'a \<Rightarrow> (string \<Rightarrow> 'a) \<Rightarrow> 'a" where
  "or_else v d k = (if truthy v then k (the v) else d)"

record BuildOptions =
  clean :: "bool option"
  minify :: "bool option"
  sourcemap :: "bool option"
  watch' :: "bool option"
  pack :: "bool option"
  target :: "string option"
  format :: "string option"
  types :: "bool option"

text \<open>
  The options of build.ts, from \<^verbatim>\<open>process.argv.slice(3)\<close>; its \<^verbatim>\<open>BuildOptions\<close> has no
  \<^verbatim>\<open>types\<close>.
\<close>

definition build_ts_options :: "string list \<Rightarrow> BuildOptions" where
  "build_ts_options argv =
     (let flags = drop 3 argv
      in \<lparr> clean = Some (\<not> array_includes flags ''--no-clean''),
           minify = Some (array_includes flags ''--minify''),
           sourcemap = Some (array_includes flags ''--sourcemap''),
           watch' = Some (array_includes flags ''--watch''),
           pack = Some (array_includes flags ''--pack''),
           target = Some (or_else (valued flags ''--target='') ''bun'' (\<lambda>v. v)),
           format = Some (or_else (valued flags ''--format='') ''esm'' (\<lambda>v. v)),
           types = None \<rparr>)"

text \<open>
  \<^verbatim>\<open>parseCommandLineArgs\<close> of the build script in scripts/build (src/unnamed/part_001):
  an option is \<^verbatim>\<open>true\<close> or a value when its flag is given, and otherwise it is
  \<^verbatim>\<open>undefined\<close> and filtered out of the object.
\<close>

record BuildParsedArgs =
  build_command :: "string option"
  build_options :: BuildOptions

definition build_parseCommandLineArgs :: "string list \<Rightarrow> BuildParsedArgs" where
  "build_parseCommandLineArgs argv =
     (let command = item argv 2;
          flags = drop 3 argv;
          given = (\<lambda>flag. if array_includes flags flag then Some True else None);
          options = \<lparr> clean = None,
                      minify = given ''--minify'',
                      sourcemap = given ''--sourcemap'',
                      watch' = given ''--watch'',
                      pack = given ''--pack'',
                      target = or_else (valued flags ''--target='') None Some,
                      format = or_else (valued flags ''--format='') None Some,
                      types = given ''--types'' \<rparr>
      in \<lparr> build_command = command, build_options = options \<rparr>)"

text \<open>
  A property of an object: the key is missing, or it is there with the value
  \<^verbatim>\<open>undefined\<close>, or with a value. The difference shows when objects are merged by spreading.
\<close>

datatype 'a property = Missing | Undefined | Value 'a

fun of_optional :: "'a option \<Rightarrow> 'a property" where
  "of_optional None = Undefined"
| "of_optional (Some v) = Value v"

record PublishOptions =
  dryRun :: "bool property"
  tag :: "string property"
  access :: "string property"
  registry :: "string property"

text \<open>The options of publish.ts, from \<^verbatim>\<open>process.argv.slice(3)\<close>: every key is there.\<close>

definition publish_options :: "string list \<Rightarrow> PublishOptions" where
  "publish_options argv =
     (let flags = drop 3 argv
      in \<lparr> dryRun = Value (array_includes flags ''--dry-run'' \<or> array_includes flags ''--dry''),
           tag = of_optional (valued flags ''--tag=''),
           access = (if array_includes flags ''--public'' then Value ''public''
                     else if array_includes flags ''--restricted'' then Value ''restricted''
                     else Undefined),
           registry = of_optional (valued flags ''--registry='') \<rparr>)"

section \<open>The publish script: publish.ts\<close>

subsection \<open>The file system, the tools and sequential execution\<close>

text \<open>
  Of the world outside, the script sees which paths exist and what the manifest
  package.json holds: \<open>manifest\<close> is the JSON value of its text, or \<open>None\<close> when the text is
  not JSON. An external command may change the world: \<open>sh cmd w\<close> is the exit status of
  the command and the world it leaves.
\<close>

record world =
  paths :: "string list"
  manifest :: "json option"

type_synonym tools = "string \<Rightarrow> world \<Rightarrow> nat \<times> world"

definition existsSync :: "world \<Rightarrow> string \<Rightarrow> bool" where
  "existsSync w p = (p \<in> set (paths w))"

text \<open>
  An operation of the script takes the world and gives the events it caused, the world it
  leaves, and an error thrown or a value returned.
\<close>

type_synonym 'a io = "world \<Rightarrow> event list \<times> world \<times> (error + 'a)"

definition return_io :: "'a \<Rightarrow> 'a io" where
  "return_io x w = ([], w, Inr x)"

definition throw :: "error \<Rightarrow> 'a io" where
  "throw e w = ([], w, Inl e)"

text \<open>One statement after another: the second runs only when the first did not throw.\<close>

definition and_then :: "'a io \<Rightarrow> ('a \<Rightarrow> 'b io) \<Rightarrow> 'b io" where
  "and_then m f w =
     (case m w of
        (t1, w1, Inl e) \<Rightarrow> (t1, w1, Inl e)
      | (t1, w1, Inr x) \<Rightarrow> (case f x w1 of (t2, w2, r) \<Rightarrow> (t1 @ t2, w2, r)))"

text \<open>\<^verbatim>\<open>try { m } catch (error) { h }\<close>\<close>

definition try_catch :: "'a io \<Rightarrow> (error \<Rightarrow> 'a io) \<Rightarrow> 'a io" where
  "try_catch m h w =
     (case m w of
        (t1, w1, Inl e) \<Rightarrow> (case h e w1 of (t2, w2, r) \<Rightarrow> (t1 @ t2, w2, r))
      | (t1, w1, Inr x) \<Rightarrow> (t1, w1, Inr x))"

definition console_log :: "string \<Rightarrow> unit io" where
  "console_log s w = ([ConsoleLog s], w, Inr ())"

definition console_error :: "string \<Rightarrow> unit io" where
  "console_error s w = ([ConsoleError s], w, Inr ())"

text \<open>
  \<^verbatim>\<open>console.log\<close> of a template literal with values read from JSON: the literal is
  evaluated first, and when the conversion of one of its values throws, nothing is written.
\<close>

fun piece_throws :: "piece \<Rightarrow> bool" where
  "piece_throws (Text s) = False"
| "piece_throws (Interpolated v) = ToString_throws v"

definition console_log_template :: "piece list \<Rightarrow> unit io" where
  "console_log_template ps w =
     (if list_ex piece_throws ps then ([], w, Inl TypeError)
      else ([ConsoleLogTemplate ps], w, Inr ()))"

definition execSync :: "tools \<Rightarrow> string \<Rightarrow> unit io" where
  "execSync sh cmd w =
     (case sh cmd w of
        (status, w') \<Rightarrow> ([ExecSync cmd], w', if status = 0 then Inr () else Inl (ExecSyncError cmd status)))"

text \<open>\<^verbatim>\<open>await Bun.file("package.json").json()\<close>\<close>

definition package_json :: "json io" where
  "package_json w =
     ([], w, if \<not> existsSync w ''package.json'' then Inl ENOENT
             else (case manifest w of None \<Rightarrow> Inl SyntaxError | Some pkg \<Rightarrow> Inr pkg))"

text \<open>Reading a property, as an operation: \<^verbatim>\<open>pkg.k\<close>.\<close>

definition property_of :: "json \<Rightarrow> string \<Rightarrow> (json option) io" where
  "property_of pkg k w = ([], w, get pkg k)"

subsection \<open>The operations\<close>

definition requiredFiles :: "string list" where
  "requiredFiles = [''dist/index.js'', ''dist/index.d.ts'', ''package.json'', ''README.md'']"

text \<open>The loop of \<^verbatim>\<open>validatePackage\<close> over the required files.\<close>

fun check_required :: "string list \<Rightarrow> unit io" where
  "check_required [] w = return_io () w"
| "check_required (f # fs) w =
     (if \<not> existsSync w f
      then and_then (console_error (''Required file missing: '' @ f))
             (\<lambda>_. throw (Error (''Missing required file: '' @ f))) w
      else check_required fs w)"

text \<open>
  The body of the \<^verbatim>\<open>try\<close> of \<^verbatim>\<open>validatePackage\<close>. The three entry points are read
  here before the test \<^verbatim>\<open>!pkg.main && !pkg.module && !pkg.exports\<close>; reading them has no
  effect and cannot throw once \<^verbatim>\<open>pkg.name\<close> was read.
\<close>

definition validate_manifest :: "unit io" where
  "validate_manifest =
     and_then package_json (\<lambda>pkg.
     and_then (property_of pkg ''name'') (\<lambda>name.
       if \<not> truthy_json name then throw (Error ''package.json missing 'name' field'')
       else
     and_then (property_of pkg ''version'') (\<lambda>version.
       if \<not> truthy_json version then throw (Error ''package.json missing 'version' field'')
       else
     and_then (property_of pkg ''main'') (\<lambda>main.
     and_then (property_of pkg ''module'') (\<lambda>module.
     and_then (property_of pkg ''exports'') (\<lambda>exports.
       if \<not> truthy_json main \<and> \<not> truthy_json module \<and> \<not> truthy_json exports
       then throw (Error ''package.json missing entry point (main/module/exports)'')
       else
     and_then (console_log ''Package validation passed'') (\<lambda>_.
     and_then (console_log_template [Text ''   '', Interpolated name, Text ''@'', Interpolated version]) (\<lambda>_.
     and_then (property_of pkg ''description'') (\<lambda>description.
       console_log_template
         [Text ''   '', if truthy_json description then Interpolated description
                        else Text ''No description''])))))))))"

definition validatePackage :: "unit io" where
  "validatePackage =
     and_then (console_log ''Validating package...'') (\<lambda>_. \<lambda>w.
       if \<not> existsSync w ''dist''
       then and_then (console_error ''dist directory not found. Please run build first.'')
              (\<lambda>_. throw (Error ''Build required before publishing'')) w
       else and_then (check_required requiredFiles) (\<lambda>_.
              try_catch validate_manifest
                (\<lambda>error. and_then (console_error ''Invalid package.json'') (\<lambda>_. throw error))) w)"

datatype versionType = patch | minor | major

fun versionType_text :: "versionType \<Rightarrow> string" where
  "versionType_text patch = ''patch''"
| "versionType_text minor = ''minor''"
| "versionType_text major = ''major''"

definition updateVersion :: "tools \<Rightarrow> versionType \<Rightarrow> (json option) io" where
  "updateVersion sh type =
     and_then (console_log (''Updating version ('' @ versionType_text type @ '')...'')) (\<lambda>_.
     try_catch
       (and_then package_json (\<lambda>pkg.
        and_then (property_of pkg ''version'') (\<lambda>oldVersion.
        and_then (execSync sh (''npm version '' @ versionType_text type @ '' --no-git-tag-version'')) (\<lambda>_.
        and_then package_json (\<lambda>newPkg.
        and_then (property_of newPkg ''version'') (\<lambda>newVersion.
        and_then (console_log_template
                    [Text ''Version updated: '', Interpolated oldVersion, Text '' -> '',
                     Interpolated newVersion]) (\<lambda>_.
        return_io newVersion)))))))
       (\<lambda>error. and_then (console_error ''Failed to update version'') (\<lambda>_. throw error)))"

definition buildForProduction :: "tools \<Rightarrow> unit io" where
  "buildForProduction sh =
     and_then (console_log ''Building for production...'') (\<lambda>_.
     try_catch
       (and_then (execSync sh ''bun run build.ts prod'') (\<lambda>_.
        console_log ''Production build completed''))
       (\<lambda>error. and_then (console_error ''Production build failed'') (\<lambda>_. throw error)))"

definition DEFAULT_OPTIONS :: PublishOptions where
  "DEFAULT_OPTIONS = \<lparr> dryRun = Value False, tag = Value ''latest'', access = Value ''public'',
                        registry = Missing \<rparr>"

text \<open>\<^verbatim>\<open>{ ...a, ...b }\<close>: a key of \<open>b\<close> wins, also when its value is \<^verbatim>\<open>undefined\<close>.\<close>

fun over :: "'a property \<Rightarrow> 'a property \<Rightarrow> 'a property" where
  "over a Missing = a"
| "over a b = b"

definition spread :: "PublishOptions \<Rightarrow> PublishOptions \<Rightarrow> PublishOptions" where
  "spread a b = \<lparr> dryRun = over (dryRun a) (dryRun b), tag = over (tag a) (tag b),
                   access = over (access a) (access b), registry = over (registry a) (registry b) \<rparr>"

text \<open>The value of a property when it is read: \<^verbatim>\<open>undefined\<close> for a missing key.\<close>

fun read :: "'a property \<Rightarrow> 'a option" where
  "read (Value v) = Some v"
| "read p = None"

definition publishToNpm :: "tools \<Rightarrow> PublishOptions \<Rightarrow> unit io" where
  "publishToNpm sh opts =
     (let mergedOptions = spread DEFAULT_OPTIONS opts;
          dry = (read (dryRun mergedOptions) = Some True);
          args = [''publish'']
                 @ (if dry then [''--dry-run''] else [])
                 @ (if truthy (read (tag mergedOptions)) \<and> read (tag mergedOptions) \<noteq> Some ''latest''
                    then [''--tag'', the (read (tag mergedOptions))] else [])
                 @ (if truthy (read (access mergedOptions))
                    then [''--access'', the (read (access mergedOptions))] else [])
                 @ (if truthy (read (registry mergedOptions))
                    then [''--registry'', the (read (registry mergedOptions))] else []);
          command = ''bun '' @ join args '' ''
      in and_then (console_log ''Publishing to npm...'') (\<lambda>_.
         try_catch
           (and_then (console_log (''Command: '' @ command)) (\<lambda>_.
            and_then (if dry then console_log ''DRY RUN - Not actually publishing'' else return_io ()) (\<lambda>_.
            and_then (execSync sh command) (\<lambda>_.
              if \<not> dry
              then and_then (console_log ''Published to npm successfully!'') (\<lambda>_.
                   and_then package_json (\<lambda>pkg.
                   and_then (property_of pkg ''name'') (\<lambda>name.
                   console_log_template
                     [Text ''View on npm: https://www.npmjs.com/package/'', Interpolated name])))
              else console_log ''Dry run completed successfully!''))))
           (\<lambda>error. and_then (console_error ''Failed to publish to npm'') (\<lambda>_. throw error))))"

text \<open>The release workflow: four awaited steps, one after another, with no handler.\<close>

definition publishWithVersionBump :: "tools \<Rightarrow> versionType \<Rightarrow> PublishOptions \<Rightarrow> unit io" where
  "publishWithVersionBump sh versionType opts =
     and_then (console_log (''Full '' @ versionType_text versionType @ '' release workflow...'')) (\<lambda>_.
     and_then (buildForProduction sh) (\<lambda>_.
     and_then validatePackage (\<lambda>_.
     and_then (updateVersion sh versionType) (\<lambda>newVersion.
     and_then (publishToNpm sh opts) (\<lambda>_.
     console_log_template [Text ''Successfully released v'', Interpolated newVersion, Text ''!''])))))"

subsection \<open>Worlds and tools for concrete runs\<close>

text \<open>
  A built package with its manifest, the same before the build, without its readme, and
  with a manifest that has no version.
\<close>

definition the_manifest :: json where
  "the_manifest = JObject [(''name'', JString ''@g8k/js-pkg-go''), (''version'', JString ''0.0.1''),
                           (''module'', JString ''index.ts'')]"

definition built :: world where
  "built = \<lparr> paths = [''dist'', ''dist/index.js'', ''dist/index.d.ts'', ''package.json'', ''README.md''],
              manifest = Some the_manifest \<rparr>"

definition unbuilt :: world where
  "unbuilt = \<lparr> paths = [''package.json'', ''README.md''], manifest = Some the_manifest \<rparr>"

definition no_readme :: world where
  "no_readme = \<lparr> paths = [''dist'', ''dist/index.js'', ''dist/index.d.ts'', ''package.json''],
                  manifest = Some the_manifest \<rparr>"

definition no_version :: world where
  "no_version = \<lparr> paths = [''dist'', ''dist/index.js'', ''dist/index.d.ts'', ''package.json'', ''README.md''],
                   manifest = Some (JObject [(''name'', JString ''@g8k/js-pkg-go''),
                                             (''main'', JString ''dist/index.js'')]) \<rparr>"

text \<open>
  A built package whose manifest has for its name an object with a key \<^verbatim>\<open>toString\<close>:
  \<^verbatim>\<open>{"name": {"toString": null}, "version": "1.0.0", "main": "index.js"}\<close>.
\<close>

definition odd_name :: world where
  "odd_name = \<lparr> paths = [''dist'', ''dist/index.js'', ''dist/index.d.ts'', ''package.json'', ''README.md''],
                 manifest = Some (JObject [(''name'', JObject [(''toString'', JNull)]),
                                           (''version'', JString ''1.0.0''),
                                           (''main'', JString ''index.js'')]) \<rparr>"

text \<open>
  Tools that all succeed and leave the world as it is, and tools of which the version
  bump fails.
\<close>

definition tools_ok :: tools where
  "tools_ok cmd w = (0, w)"

definition tools_no_bump :: tools where
  "tools_no_bump cmd w = (if cmd = ''npm version patch --no-git-tag-version'' then (1, w) else (0, w))"

section \<open>Properties of the test scripts\<close>

lemma find_as_filter:
  "find P xs = (case filter P xs of [] \<Rightarrow> None | x # _ \<Rightarrow> Some x)"
  by (induction xs) auto

text \<open>
  C10. In both test scripts the file argument is the first token after the command that
  does not start with \<^verbatim>\<open>--\<close>, wherever the flag tokens stand: it is the head of the
  tokens left when every flag token is removed. The later tokens without \<^verbatim>\<open>--\<close> are
  dropped, and the options are those of the argument list with every such token removed.
\<close>

theorem fileArg_first_positional:
  "fileArg (parseCommandLineArgs argv) =
     (case filter (\<lambda>t. \<not> startsWith t ''--'') (drop 3 argv) of [] \<Rightarrow> None | t # _ \<Rightarrow> Some t)
   \<and> options (parseCommandLineArgs argv) =
     options (parseCommandLineArgs (take 3 argv @ filter (\<lambda>t. startsWith t ''--'') (drop 3 argv)))
   \<and> test_ts_fileArg argv =
     (case filter (\<lambda>t. \<not> startsWith t ''--'') (drop 3 argv) of [] \<Rightarrow> None | t # _ \<Rightarrow> Some t)
   \<and> test_ts_options argv =
     test_ts_options (take 3 argv @ filter (\<lambda>t. startsWith t ''--'') (drop 3 argv))"
proof (cases "3 \<le> length argv")
  case True
  then have "drop 3 (take 3 argv @ ys) = ys" for ys :: "string list"
    by (simp add: min_def)
  then show ?thesis
    by (simp add: parseCommandLineArgs_def test_ts_fileArg_def test_ts_options_def
        find_as_filter Let_def)
next
  case False
  then show ?thesis
    by (simp add: parseCommandLineArgs_def test_ts_fileArg_def test_ts_options_def
        find_as_filter Let_def)
qed

lemma no_positional:
  "\<forall>t \<in> set flags. startsWith t ''--'' \<Longrightarrow> find (\<lambda>flag. \<not> startsWith flag ''--'') flags = None"
  by (simp add: find_None_iff)

text \<open>
  C5. When the command is \<^verbatim>\<open>file\<close> and every token after it starts with \<^verbatim>\<open>--\<close>
  (no positional filename), both test scripts write the usage error to the console and
  call \<^verbatim>\<open>process.exit(1)\<close>: the exit status is not zero, and no command is handed to
  \<^verbatim>\<open>execSync\<close>, so neither \<^verbatim>\<open>runSingleFileTests\<close> nor \<^verbatim>\<open>runFileTests\<close> is reached.
\<close>
theorem file_without_filename_usage_error:
  assumes "item argv 2 = Some ''file''"
    and "\<forall>t \<in> set (drop 3 argv). startsWith t ''--''"
  shows "test_index sh argv =
           ([ConsoleError ''Please specify a test file to run'',
             ConsoleLog ''Usage: bun run test:file <filename>''], ProcessExit 1)
       \<and> test_ts sh argv =
           ([ConsoleError ''Please specify a test file to run'',
             ConsoleLog ''Usage: bun test:file <filename>''], ProcessExit 1)
       \<and> exit_status (snd (test_index sh argv)) \<noteq> 0
       \<and> exit_status (snd (test_ts sh argv)) \<noteq> 0
       \<and> executed (fst (test_index sh argv)) = []
       \<and> executed (fst (test_ts sh argv)) = []"
  using assms no_positional [OF assms(2)]
  by (simp add: test_index_def test_ts_def parseCommandLineArgs_def test_ts_command_def
      test_ts_fileArg_def usageError_def test_ts_usageError_def Let_def)

text \<open>The usage error at \<^verbatim>\<open>bun index.ts file --verbose\<close>.\<close>
theorem file_without_filename_usage_error_witness:
  "item [''bun'', ''index.ts'', ''file'', ''--verbose''] 2 = Some ''file''
   \<and> list_all (\<lambda>t. startsWith t ''--'') (drop 3 [''bun'', ''index.ts'', ''file'', ''--verbose''])
   \<and> test_index all_pass [''bun'', ''index.ts'', ''file'', ''--verbose''] =
           ([ConsoleError ''Please specify a test file to run'',
             ConsoleLog ''Usage: bun run test:file <filename>''], ProcessExit 1)
   \<and> test_ts all_pass [''bun'', ''index.ts'', ''file'', ''--verbose''] =
           ([ConsoleError ''Please specify a test file to run'',
             ConsoleLog ''Usage: bun test:file <filename>''], ProcessExit 1)
   \<and> executed (fst (test_index all_pass [''bun'', ''index.ts'', ''file'', ''--verbose''])) = []"
proof -
  have a: "item [''bun'', ''index.ts'', ''file'', ''--verbose''] 2 = Some ''file''"
    by (simp add: item_def)
  have b: "\<forall>t \<in> set (drop 3 [''bun'', ''index.ts'', ''file'', ''--verbose'']). startsWith t ''--''"
    by (simp add: startsWith_def)
  show ?thesis
    using a b file_without_filename_usage_error [OF a b, of all_pass]
    by (simp add: list_all_iff)
qed

text \<open>
  C4, as amended. When the command token is absent or the empty string, the help message
  is printed and then the default operation runs (\<^verbatim>\<open>runAllTests\<close>, in test.ts
  \<^verbatim>\<open>runTestsWithCoverage\<close>), and the script ends as that operation ends. When the command
  token is a non-empty string that is not a recognized command, the help message is
  printed, no external command is run and the exit status is 0; the recognized commands
  are \<^verbatim>\<open>coverage\<close>, \<^verbatim>\<open>file\<close> and \<^verbatim>\<open>help\<close> in scripts/test, and \<^verbatim>\<open>coverage\<close> and \<^verbatim>\<open>file\<close>
  in test.ts, which has no \<^verbatim>\<open>help\<close> command.
\<close>
theorem dispatch_absent_or_unrecognized:
  "(\<not> truthy (item argv 2) \<longrightarrow>
      test_index sh argv =
        (ConsoleLog helpMessage # fst (runAllTests sh (options (parseCommandLineArgs argv))),
         snd (top_level (runAllTests sh (options (parseCommandLineArgs argv)))))
    \<and> test_ts sh argv =
        (ConsoleLog test_ts_help # fst (runTestsWithCoverage sh),
         snd (top_level (runTestsWithCoverage sh))))
   \<and> (truthy (item argv 2) \<and> item argv 2 \<noteq> Some ''coverage'' \<and> item argv 2 \<noteq> Some ''file''
        \<and> item argv 2 \<noteq> Some ''help'' \<longrightarrow>
      test_index sh argv = ([ConsoleLog helpMessage], Completed)
    \<and> exit_status (snd (test_index sh argv)) = 0
    \<and> executed (fst (test_index sh argv)) = [])
   \<and> (truthy (item argv 2) \<and> item argv 2 \<noteq> Some ''coverage'' \<and> item argv 2 \<noteq> Some ''file'' \<longrightarrow>
      test_ts sh argv = ([ConsoleLog test_ts_help], Completed)
    \<and> exit_status (snd (test_ts sh argv)) = 0
    \<and> executed (fst (test_ts sh argv)) = [])"
proof -
  have fst_tl: "fst (top_level r) = fst r" for r
    by (cases r rule: top_level.cases) simp_all
  have split_tl: "(case top_level r of (evs, out) \<Rightarrow> (e # evs, out)) = (e # fst r, snd (top_level r))" for r e
    by (cases r rule: top_level.cases) simp_all
  show ?thesis
    by (cases "item argv 2")
       (auto simp add: test_index_def test_ts_def parseCommandLineArgs_def test_ts_command_def
          Let_def split_tl)
qed

text \<open>
  The default operation at \<^verbatim>\<open>bun index.ts\<close> and \<^verbatim>\<open>bun test.ts\<close>, the help alone at
  \<^verbatim>\<open>bun index.ts lint\<close> and \<^verbatim>\<open>bun test.ts lint\<close>, and at \<^verbatim>\<open>bun test.ts help\<close>.
\<close>
theorem dispatch_absent_or_unrecognized_witness:
  "\<not> truthy (item [''bun'', ''index.ts''] 2)
   \<and> executed (fst (test_index all_pass [''bun'', ''index.ts''])) = [''bun test'']
   \<and> executed (fst (test_ts all_pass [''bun'', ''test.ts''])) = [''bun test --coverage'']
   \<and> truthy (item [''bun'', ''index.ts'', ''lint''] 2)
   \<and> test_index all_pass [''bun'', ''index.ts'', ''lint''] = ([ConsoleLog helpMessage], Completed)
   \<and> test_ts all_pass [''bun'', ''test.ts'', ''lint''] = ([ConsoleLog test_ts_help], Completed)
   \<and> truthy (item [''bun'', ''test.ts'', ''help''] 2)
   \<and> test_ts all_pass [''bun'', ''test.ts'', ''help''] = ([ConsoleLog test_ts_help], Completed)
   \<and> exit_status (snd (test_ts all_pass [''bun'', ''test.ts'', ''help''])) = 0
   \<and> executed (fst (test_ts all_pass [''bun'', ''test.ts'', ''help''])) = []"
proof -
  have a: "\<not> truthy (item [''bun'', ''index.ts''] 2)"
    by (simp add: item_def)
  have a': "\<not> truthy (item [''bun'', ''test.ts''] 2)"
    by (simp add: item_def)
  have b: "truthy (item [''bun'', ''index.ts'', ''lint''] 2)
         \<and> item [''bun'', ''index.ts'', ''lint''] 2 \<noteq> Some ''coverage''
         \<and> item [''bun'', ''index.ts'', ''lint''] 2 \<noteq> Some ''file''
         \<and> item [''bun'', ''index.ts'', ''lint''] 2 \<noteq> Some ''help''"
    by (simp add: item_def)
  have b': "truthy (item [''bun'', ''test.ts'', ''lint''] 2)
         \<and> item [''bun'', ''test.ts'', ''lint''] 2 \<noteq> Some ''coverage''
         \<and> item [''bun'', ''test.ts'', ''lint''] 2 \<noteq> Some ''file''"
    by (simp add: item_def)
  have h: "truthy (item [''bun'', ''test.ts'', ''help''] 2)
         \<and> item [''bun'', ''test.ts'', ''help''] 2 \<noteq> Some ''coverage''
         \<and> item [''bun'', ''test.ts'', ''help''] 2 \<noteq> Some ''file''"
    by (simp add: item_def)
  have c: "executed (fst (runAllTests all_pass (options (parseCommandLineArgs [''bun'', ''index.ts''])))) = [''bun test'']"
    by (simp add: runAllTests_def parseCommandLineArgs_def array_includes_def all_pass_def Let_def)
  have d: "executed (fst (runTestsWithCoverage all_pass)) = [''bun test --coverage'']"
    by (simp add: runTestsWithCoverage_def all_pass_def Let_def)
  show ?thesis
    using a a' b b' h c d
      dispatch_absent_or_unrecognized [of "[''bun'', ''index.ts'']" all_pass]
      dispatch_absent_or_unrecognized [of "[''bun'', ''test.ts'']" all_pass]
      dispatch_absent_or_unrecognized [of "[''bun'', ''index.ts'', ''lint'']" all_pass]
      dispatch_absent_or_unrecognized [of "[''bun'', ''test.ts'', ''lint'']" all_pass]
      dispatch_absent_or_unrecognized [of "[''bun'', ''test.ts'', ''help'']" all_pass]
    by simp
qed

text \<open>
  C4 as stated fails for a command token that is present and empty: it is none of the
  recognized commands, and the tests are run, since \<^verbatim>\<open>!command\<close> holds for it.
\<close>
theorem empty_command_runs_tests:
  "item [''bun'', ''index.ts'', ''''] 2 = Some ''''
   \<and> executed (fst (test_index all_pass [''bun'', ''index.ts'', ''''])) = [''bun test'']
   \<and> executed (fst (test_ts all_pass [''bun'', ''test.ts'', ''''])) = [''bun test --coverage'']"
  by (simp add: item_def test_index_def test_ts_def parseCommandLineArgs_def test_ts_command_def
      runAllTests_def runTestsWithCoverage_def array_includes_def all_pass_def Let_def)

text \<open>
  C8. In scripts/test, when a command handed to \<^verbatim>\<open>execSync\<close> exits with a status that
  is not zero, \<^verbatim>\<open>runAllTests\<close> and \<^verbatim>\<open>runSingleFileTests\<close> throw a
  \<^verbatim>\<open>TestExecutionError\<close> whose \<^verbatim>\<open>command\<close> field is that very command string, and the
  module body of index.ts does not catch it: the script ends with that error uncaught and
  an exit status that is not zero.
\<close>
theorem failed_process_raises_TestExecutionError:
  assumes "sh c \<noteq> 0"
  shows "(ExecSync c \<in> set (fst (runAllTests sh opts)) \<longrightarrow>
            snd (runAllTests sh opts) = Inl (TestExecutionError ''Test execution failed'' (Some c)))
       \<and> (ExecSync c \<in> set (fst (runSingleFileTests sh filename opts)) \<longrightarrow>
            snd (runSingleFileTests sh filename opts) =
              Inl (TestExecutionError (''Test execution failed for '' @ filename) (Some c)))
       \<and> (ExecSync c \<in> set (fst (test_index sh argv)) \<longrightarrow>
            (\<exists>m. snd (test_index sh argv) = Uncaught (TestExecutionError m (Some c)))
            \<and> exit_status (snd (test_index sh argv)) \<noteq> 0)"
proof -
  have all: "ExecSync c \<in> set (fst (runAllTests sh o')) \<Longrightarrow>
      runAllTests sh o' = (fst (runAllTests sh o'), Inl (TestExecutionError ''Test execution failed'' (Some c)))" for o'
    using assms by (auto simp add: runAllTests_def Let_def split: if_splits)
  have single: "ExecSync c \<in> set (fst (runSingleFileTests sh f o')) \<Longrightarrow>
      runSingleFileTests sh f o' = (fst (runSingleFileTests sh f o'),
         Inl (TestExecutionError (''Test execution failed for '' @ f) (Some c)))" for o' f
    using assms by (auto simp add: runSingleFileTests_def Let_def split: if_splits)
  have all': "top_level (runAllTests sh o') = (evs, out) \<Longrightarrow> ExecSync c \<in> set evs \<Longrightarrow>
      out = Uncaught (TestExecutionError ''Test execution failed'' (Some c))" for o' evs out
    using assms by (auto simp add: runAllTests_def Let_def split: if_splits)
  have single': "top_level (runSingleFileTests sh f o') = (evs, out) \<Longrightarrow> ExecSync c \<in> set evs \<Longrightarrow>
      out = Uncaught (TestExecutionError (''Test execution failed for '' @ f) (Some c))" for o' f evs out
    using assms by (auto simp add: runSingleFileTests_def Let_def split: if_splits)
  have index: "ExecSync c \<in> set (fst (test_index sh argv)) \<Longrightarrow>
      \<exists>m. snd (test_index sh argv) = Uncaught (TestExecutionError m (Some c))"
  proof -
    assume e: "ExecSync c \<in> set (fst (test_index sh argv))"
    have all'': "ExecSync c \<in> set (fst (top_level (runAllTests sh o'))) \<Longrightarrow>
        snd (top_level (runAllTests sh o')) =
          Uncaught (TestExecutionError ''Test execution failed'' (Some c))" for o'
      using all' [of o' "fst (top_level (runAllTests sh o'))" "snd (top_level (runAllTests sh o'))"]
      by simp
    have single'': "ExecSync c \<in> set (fst (top_level (runSingleFileTests sh f o'))) \<Longrightarrow>
        snd (top_level (runSingleFileTests sh f o')) =
          Uncaught (TestExecutionError (''Test execution failed for '' @ f) (Some c))" for o' f
      using single' [of f o' "fst (top_level (runSingleFileTests sh f o'))"
          "snd (top_level (runSingleFileTests sh f o'))"]
      by simp
    from e show ?thesis
      unfolding test_index_def Let_def usageError_def
      by (auto split: if_splits prod.splits dest: all' all'' single'')
  qed
  show ?thesis
    using all single index by (metis exit_status.simps(3) snd_conv zero_neq_one)
qed

text \<open>A failing run of each operation and of the dispatcher.\<close>
theorem failed_process_raises_TestExecutionError_witness:
  "all_fail ''bun test'' \<noteq> 0
   \<and> ExecSync ''bun test'' \<in> set (fst (runAllTests all_fail
         \<lparr>coverage = Some False, watch = Some False, verbose = Some False, file' = None\<rparr>))
   \<and> snd (runAllTests all_fail
         \<lparr>coverage = Some False, watch = Some False, verbose = Some False, file' = None\<rparr>)
       = Inl (TestExecutionError ''Test execution failed'' (Some ''bun test''))
   \<and> ExecSync ''bun test sum.test.ts --watch'' \<in> set (fst (runSingleFileTests all_fail ''sum.test.ts''
         \<lparr>coverage = Some False, watch = Some False, verbose = Some False, file' = None\<rparr>))
   \<and> snd (runSingleFileTests all_fail ''sum.test.ts''
         \<lparr>coverage = Some False, watch = Some False, verbose = Some False, file' = None\<rparr>)
       = Inl (TestExecutionError ''Test execution failed for sum.test.ts''
               (Some ''bun test sum.test.ts --watch''))
   \<and> ExecSync ''bun test'' \<in> set (fst (test_index all_fail [''bun'', ''index.ts'', ''coverage'']))
   \<and> exit_status (snd (test_index all_fail [''bun'', ''index.ts'', ''coverage''])) \<noteq> 0"
proof -
  let ?o = "\<lparr>coverage = Some False, watch = Some False, verbose = Some False, file' = None\<rparr>"
  have f: "all_fail ''bun test'' \<noteq> 0" "all_fail ''bun test sum.test.ts --watch'' \<noteq> 0"
    by (simp_all add: all_fail_def)
  have a: "ExecSync ''bun test'' \<in> set (fst (runAllTests all_fail ?o))"
    by (simp add: runAllTests_def Let_def)
  have s: "ExecSync ''bun test sum.test.ts --watch'' \<in> set (fst (runSingleFileTests all_fail ''sum.test.ts'' ?o))"
    by (simp add: runSingleFileTests_def Let_def)
  have i: "ExecSync ''bun test'' \<in> set (fst (test_index all_fail [''bun'', ''index.ts'', ''coverage'']))"
    by (simp add: test_index_def parseCommandLineArgs_def item_def runAllTests_def
        array_includes_def all_fail_def Let_def)
  show ?thesis
    using f a s i
      failed_process_raises_TestExecutionError [of all_fail "''bun test''" ?o "''sum.test.ts''" "[''bun'', ''index.ts'', ''coverage'']"]
      failed_process_raises_TestExecutionError [of all_fail "''bun test sum.test.ts --watch''" ?o "''sum.test.ts''" "[''bun'', ''index.ts'', ''coverage'']"]
    by simp
qed

section \<open>Properties of the valued flags\<close>

lemma split_head: "\<exists>rest. split v c = takeWhile (\<lambda>x. x \<noteq> c) v # rest"
  by (induction v) (auto split: list.splits)

lemma split_prefix: "c \<notin> set n \<Longrightarrow> split (n @ c # v) c = n # split v c"
  by (induction n) (auto split: list.splits)

lemma item_split_1:
  assumes "c \<notin> set n"
  shows "item (split (n @ c # v) c) 1 = Some (takeWhile (\<lambda>x. x \<noteq> c) v)"
proof -
  obtain rest where "split v c = takeWhile (\<lambda>x. x \<noteq> c) v # rest"
    using split_head by blast
  then show ?thesis
    using assms by (simp add: split_prefix item_def)
qed

lemma valued_first_token:
  assumes "find (\<lambda>f. startsWith f (n @ ''='')) flags = Some (n @ ''='' @ v)"
    and "CHR ''='' \<notin> set n"
  shows "valued flags (n @ ''='') = Some (takeWhile (\<lambda>x. x \<noteq> CHR ''='') v)"
  using assms item_split_1 [of "CHR ''=''" n v] by (simp add: valued_def)

text \<open>
  What \<^verbatim>\<open>.split("=")[1]\<close> keeps of the first token with the prefix \<^verbatim>\<open>--tag=\<close>,
  \<^verbatim>\<open>--registry=\<close>, \<^verbatim>\<open>--target=\<close> or \<^verbatim>\<open>--format=\<close>: the piece between the first and the
  second \<^verbatim>\<open>=\<close> of the token.
\<close>
lemma valued_flag_first_piece:
  "(find (\<lambda>f. startsWith f ''--tag='') (drop 3 argv) = Some (''--tag='' @ v) \<longrightarrow>
      tag (publish_options argv) = Value (takeWhile (\<lambda>x. x \<noteq> CHR ''='') v))
   \<and> (find (\<lambda>f. startsWith f ''--registry='') (drop 3 argv) = Some (''--registry='' @ v) \<longrightarrow>
      registry (publish_options argv) = Value (takeWhile (\<lambda>x. x \<noteq> CHR ''='') v))
   \<and> (find (\<lambda>f. startsWith f ''--target='') (drop 3 argv) = Some (''--target='' @ v) \<longrightarrow>
      target (build_ts_options argv) =
        Some (if takeWhile (\<lambda>x. x \<noteq> CHR ''='') v = [] then ''bun'' else takeWhile (\<lambda>x. x \<noteq> CHR ''='') v)
      \<and> target (build_options (build_parseCommandLineArgs argv)) =
        (if takeWhile (\<lambda>x. x \<noteq> CHR ''='') v = [] then None else Some (takeWhile (\<lambda>x. x \<noteq> CHR ''='') v)))
   \<and> (find (\<lambda>f. startsWith f ''--format='') (drop 3 argv) = Some (''--format='' @ v) \<longrightarrow>
      format (build_ts_options argv) =
        Some (if takeWhile (\<lambda>x. x \<noteq> CHR ''='') v = [] then ''esm'' else takeWhile (\<lambda>x. x \<noteq> CHR ''='') v)
      \<and> format (build_options (build_parseCommandLineArgs argv)) =
        (if takeWhile (\<lambda>x. x \<noteq> CHR ''='') v = [] then None else Some (takeWhile (\<lambda>x. x \<noteq> CHR ''='') v)))
   \<and> (CHR ''='' \<notin> set v \<longrightarrow> takeWhile (\<lambda>x. x \<noteq> CHR ''='') v = v)"
proof -
  have tag: "valued (drop 3 argv) ''--tag='' = Some (takeWhile (\<lambda>x. x \<noteq> CHR ''='') v)"
    if "find (\<lambda>f. startsWith f ''--tag='') (drop 3 argv) = Some (''--tag='' @ v)"
    using valued_first_token [of "''--tag''" "drop 3 argv" v] that by simp
  have registry: "valued (drop 3 argv) ''--registry='' = Some (takeWhile (\<lambda>x. x \<noteq> CHR ''='') v)"
    if "find (\<lambda>f. startsWith f ''--registry='') (drop 3 argv) = Some (''--registry='' @ v)"
    using valued_first_token [of "''--registry''" "drop 3 argv" v] that by simp
  have target: "valued (drop 3 argv) ''--target='' = Some (takeWhile (\<lambda>x. x \<noteq> CHR ''='') v)"
    if "find (\<lambda>f. startsWith f ''--target='') (drop 3 argv) = Some (''--target='' @ v)"
    using valued_first_token [of "''--target''" "drop 3 argv" v] that by simp
  have format: "valued (drop 3 argv) ''--format='' = Some (takeWhile (\<lambda>x. x \<noteq> CHR ''='') v)"
    if "find (\<lambda>f. startsWith f ''--format='') (drop 3 argv) = Some (''--format='' @ v)"
    using valued_first_token [of "''--format''" "drop 3 argv" v] that by simp
  have whole: "CHR ''='' \<notin> set v \<Longrightarrow> takeWhile (\<lambda>x. x \<noteq> CHR ''='') v = v"
    by (induction v) auto
  show ?thesis
    using tag registry target format whole
    by (simp add: publish_options_def build_ts_options_def build_parseCommandLineArgs_def
        or_else_def Let_def)
qed

text \<open>
  C9 fails on the code. The help text of publish.ts documents \<^verbatim>\<open>--registry=<url>\<close> and
  \<^verbatim>\<open>--tag=<name>\<close>, and the value is taken with \<^verbatim>\<open>.split("=")[1]\<close>, which is the whole
  remainder of the token only when the value has no \<^verbatim>\<open>=\<close>. At
  \<^verbatim>\<open>bun run publish.ts patch --registry=https://npm.example.org/?scope=g8k\<close> the registry
  option is \<^verbatim>\<open>https://npm.example.org/?scope\<close>, not the remainder
  \<^verbatim>\<open>https://npm.example.org/?scope=g8k\<close> of the token, and the cut URL is what
  \<^verbatim>\<open>bun publish\<close> is run with. The same holds of \<^verbatim>\<open>--tag=a=b\<close>, and of \<^verbatim>\<open>--target=a=b\<close> and
  \<^verbatim>\<open>--format=a=b\<close> in the build scripts.
\<close>
theorem valued_flag_truncated:
  "registry (publish_options [''bun'', ''publish.ts'', ''patch'', ''--registry=https://npm.example.org/?scope=g8k''])
     = Value ''https://npm.example.org/?scope''
   \<and> registry (publish_options [''bun'', ''publish.ts'', ''patch'', ''--registry=https://npm.example.org/?scope=g8k''])
     \<noteq> Value ''https://npm.example.org/?scope=g8k''
   \<and> executed (fst (publishToNpm tools_ok
         (publish_options [''bun'', ''publish.ts'', ''patch'', ''--registry=https://npm.example.org/?scope=g8k''])
         built))
     = [''bun publish --registry https://npm.example.org/?scope'']
   \<and> tag (publish_options [''bun'', ''publish.ts'', ''patch'', ''--tag=a=b'']) = Value ''a''
   \<and> target (build_ts_options [''bun'', ''build.ts'', ''prod'', ''--target=a=b'']) = Some ''a''
   \<and> format (build_options (build_parseCommandLineArgs [''bun'', ''index.ts'', ''prod'', ''--format=a=b''])) = Some ''a''"
proof -
  have r: "publish_options [''bun'', ''publish.ts'', ''patch'', ''--registry=https://npm.example.org/?scope=g8k'']
      = \<lparr> dryRun = Value False, tag = Undefined, access = Undefined,
          registry = Value ''https://npm.example.org/?scope'' \<rparr>"
    by (simp add: publish_options_def valued_def startsWith_def item_def array_includes_def Let_def)
  have pj: "package_json built = ([], built, Inr the_manifest)"
    by (simp add: package_json_def existsSync_def built_def)
  have g: "property_of the_manifest ''name'' built = ([], built, Inr (Some (JString ''@g8k/js-pkg-go'')))"
    by (simp add: property_of_def the_manifest_def)
  have p: "executed (fst (publishToNpm tools_ok
         \<lparr> dryRun = Value False, tag = Undefined, access = Undefined,
           registry = Value ''https://npm.example.org/?scope'' \<rparr> built))
     = [''bun publish --registry https://npm.example.org/?scope'']"
    by (simp add: publishToNpm_def spread_def DEFAULT_OPTIONS_def and_then_def try_catch_def
        console_log_def console_log_template_def return_io_def execSync_def tools_ok_def pj g Let_def)
  have rest: "tag (publish_options [''bun'', ''publish.ts'', ''patch'', ''--tag=a=b'']) = Value ''a''
     \<and> target (build_ts_options [''bun'', ''build.ts'', ''prod'', ''--target=a=b'']) = Some ''a''
     \<and> format (build_options (build_parseCommandLineArgs [''bun'', ''index.ts'', ''prod'', ''--format=a=b''])) = Some ''a''"
    by (simp add: publish_options_def build_ts_options_def build_parseCommandLineArgs_def valued_def
        startsWith_def item_def or_else_def Let_def)
  show ?thesis
    using p rest by (simp add: r)
qed

section \<open>Properties of the publish script\<close>

subsection \<open>Results and traces of the operations\<close>

lemma check_required_find:
  "check_required fs w =
     (case find (\<lambda>f. \<not> existsSync w f) fs of
        None \<Rightarrow> ([], w, Inr ())
      | Some f \<Rightarrow> ([ConsoleError (''Required file missing: '' @ f)], w,
                   Inl (Error (''Missing required file: '' @ f))))"
  by (induction fs) (simp_all add: return_io_def and_then_def console_error_def throw_def)

lemma get_not_null: "pkg \<noteq> JNull \<Longrightarrow> \<exists>v. get pkg k = Inr v"
  by (cases pkg) simp_all

lemma result_and_then:
  "snd (snd (and_then m f w)) =
     (case m w of (t1, w1, Inl e) \<Rightarrow> Inl e | (t1, w1, Inr x) \<Rightarrow> snd (snd (f x w1)))"
  by (simp add: and_then_def split: prod.splits sum.splits)

lemma result_rethrow:
  "snd (snd (try_catch m (\<lambda>error. and_then (console_error s) (\<lambda>_. throw error)) w)) = snd (snd (m w))"
  by (cases "m w" rule: prod_cases3)
     (simp add: try_catch_def and_then_def console_error_def throw_def split: sum.splits)

lemma result_template:
  "snd (snd (console_log_template ps w)) = (if list_ex piece_throws ps then Inl TypeError else Inr ())"
  by (simp add: console_log_template_def)

lemma validate_manifest_result:
  assumes "existsSync w ''package.json''"
  shows "snd (snd (validate_manifest w)) =
     (case manifest w of
        None \<Rightarrow> Inl SyntaxError
      | Some pkg \<Rightarrow>
          (case get pkg ''name'' of
             Inl e \<Rightarrow> Inl e
           | Inr name \<Rightarrow>
               if \<not> truthy_json name then Inl (Error ''package.json missing 'name' field'')
               else (case get pkg ''version'' of
                  Inl e \<Rightarrow> Inl e
                | Inr version \<Rightarrow>
                    if \<not> truthy_json version then Inl (Error ''package.json missing 'version' field'')
                    else (case (get pkg ''main'', get pkg ''module'', get pkg ''exports'',
                                get pkg ''description'') of
                       (Inr main, Inr modul, Inr exports, Inr description) \<Rightarrow>
                         if \<not> truthy_json main \<and> \<not> truthy_json modul \<and> \<not> truthy_json exports
                         then Inl (Error ''package.json missing entry point (main/module/exports)'')
                         else if ToString_throws name \<or> ToString_throws version then Inl TypeError
                         else if truthy_json description \<and> ToString_throws description then Inl TypeError
                         else Inr ()
                     | _ \<Rightarrow> Inl TypeError))))"
proof (cases "manifest w")
  case None
  then show ?thesis
    using assms by (simp add: validate_manifest_def result_and_then package_json_def)
next
  case (Some pkg)
  show ?thesis
  proof (cases "pkg = JNull")
    case True
    then show ?thesis
      using assms Some by (simp add: validate_manifest_def result_and_then package_json_def property_of_def)
  next
    case False
    obtain name version main modul exports description where g:
      "get pkg ''name'' = Inr name" "get pkg ''version'' = Inr version"
      "get pkg ''main'' = Inr main" "get pkg ''module'' = Inr modul"
      "get pkg ''exports'' = Inr exports" "get pkg ''description'' = Inr description"
      using get_not_null [OF False] by metis
    show ?thesis
      using assms Some g
      by (simp add: validate_manifest_def and_then_def package_json_def property_of_def
          throw_def console_log_def console_log_template_def)
  qed
qed

lemma validatePackage_result:
  "snd (snd (validatePackage w)) =
     (if \<not> existsSync w ''dist'' then Inl (Error ''Build required before publishing'')
      else (case find (\<lambda>f. \<not> existsSync w f) requiredFiles of
              Some f \<Rightarrow> Inl (Error (''Missing required file: '' @ f))
            | None \<Rightarrow> snd (snd (validate_manifest w))))"
  by (simp add: validatePackage_def result_and_then result_rethrow console_log_def
      console_error_def throw_def check_required_find split: option.splits)

lemma all_required_exist:
  "find (\<lambda>f. \<not> existsSync w f) requiredFiles = None \<longleftrightarrow> (\<forall>f \<in> set requiredFiles. existsSync w f)"
  by (auto simp add: find_None_iff)

lemma executed_append: "executed (a @ b) = executed a @ executed b"
  by (induction a rule: executed.induct) simp_all

lemma executed_and_then:
  "executed (fst (and_then m f w)) =
     (case m w of
        (t1, w1, Inl e) \<Rightarrow> executed t1
      | (t1, w1, Inr x) \<Rightarrow> executed t1 @ executed (fst (f x w1)))"
  by (simp add: and_then_def executed_append split: prod.splits sum.splits)

lemma executed_rethrow:
  "executed (fst (try_catch m (\<lambda>error. and_then (console_error s) (\<lambda>_. throw error)) w))
     = executed (fst (m w))"
  by (cases "m w" rule: prod_cases3)
     (simp add: try_catch_def and_then_def console_error_def throw_def executed_append
        split: sum.splits)

lemma execSync_result:
  "execSync sh cmd w =
     ([ExecSync cmd], snd (sh cmd w),
      if fst (sh cmd w) = 0 then Inr () else Inl (ExecSyncError cmd (fst (sh cmd w))))"
  by (simp add: execSync_def split: prod.splits)

lemma template_cases:
  "console_log_template ps w = ([], w, Inl TypeError)
   \<or> console_log_template ps w = ([ConsoleLogTemplate ps], w, Inr ())"
  by (simp add: console_log_template_def)

lemma executed_template_then:
  "executed (fst (and_then (console_log_template ps) f w)) =
     (if list_ex piece_throws ps then [] else executed (fst (f () w)))"
  by (simp add: executed_and_then console_log_template_def)

lemma executed_template: "executed (fst (console_log_template ps w)) = []"
  by (simp add: console_log_template_def)

lemma executed_build:
  "executed (fst (buildForProduction sh w)) = [''bun run build.ts prod'']"
  by (simp add: buildForProduction_def executed_and_then executed_rethrow console_log_def
      execSync_result)

lemma executed_check_required: "executed (fst (check_required fs w)) = []"
  by (simp add: check_required_find split: option.splits)

lemma world_check_required: "fst (snd (check_required fs w)) = w"
  by (simp add: check_required_find split: option.splits)

lemma quiet_and_then:
  assumes "\<And>w. executed (fst (m w)) = []" and "\<And>x w. executed (fst (f x w)) = []"
  shows "executed (fst (and_then m f w)) = []"
  using assms by (simp add: executed_and_then split: prod.splits sum.splits) (metis fst_conv)

lemma quiet_basic:
  "executed (fst (package_json w)) = []"
  "executed (fst (property_of pkg k w)) = []"
  "executed (fst (throw e w)) = []"
  "executed (fst (return_io x w)) = []"
  "executed (fst (console_log s w)) = []"
  "executed (fst (console_error s w)) = []"
  "executed (fst (console_log_template ps w)) = []"
  by (simp_all add: package_json_def property_of_def throw_def return_io_def console_log_def
      console_error_def console_log_template_def)

lemma executed_validate_manifest: "executed (fst (validate_manifest w)) = []"
  unfolding validate_manifest_def
  by (intro quiet_and_then quiet_basic impI conjI allI | simp add: quiet_basic)+

lemma executed_validate: "executed (fst (validatePackage w)) = []"
proof -
  obtain t r where c: "check_required requiredFiles w = (t, w, r)" and t: "executed t = []"
    using executed_check_required [of requiredFiles w] world_check_required [of requiredFiles w]
    by (cases "check_required requiredFiles w" rule: prod_cases3) simp
  show ?thesis
    by (simp add: validatePackage_def executed_and_then executed_rethrow console_log_def
        console_error_def throw_def c t executed_validate_manifest split: sum.splits)
qed

lemma result_then:
  "snd (snd (and_then m f w)) =
     (case snd (snd (m w)) of Inl e \<Rightarrow> Inl e | Inr x \<Rightarrow> snd (snd (f x (fst (snd (m w))))))"
  by (simp add: and_then_def split: prod.splits sum.splits)

lemma executed_then:
  "executed (fst (and_then m f w)) =
     executed (fst (m w)) @
       (case snd (snd (m w)) of Inl e \<Rightarrow> [] | Inr x \<Rightarrow> executed (fst (f x (fst (snd (m w))))))"
  by (simp add: and_then_def executed_append split: prod.splits sum.splits)

lemma world_basic:
  "fst (snd (package_json w)) = w"
  "fst (snd (property_of pkg k w)) = w"
  "fst (snd (console_log s w)) = w"
  "fst (snd (console_log_template ps w)) = w"
  "fst (snd (execSync sh cmd w)) = snd (sh cmd w)"
  by (simp_all add: package_json_def property_of_def console_log_def console_log_template_def
      execSync_result)

lemma result_basic:
  "snd (snd (property_of pkg k w)) = get pkg k"
  "snd (snd (console_log s w)) = Inr ()"
  "snd (snd (return_io x w)) = Inr x"
  "snd (snd (execSync sh cmd w)) =
     (if fst (sh cmd w) = 0 then Inr () else Inl (ExecSyncError cmd (fst (sh cmd w))))"
  by (simp_all add: property_of_def console_log_def return_io_def execSync_result)

lemma executed_execSync: "executed (fst (execSync sh cmd w)) = [cmd]"
  by (simp add: execSync_result)

lemma updateVersion_result:
  "snd (snd (updateVersion sh type w)) =
     (case snd (snd (package_json w)) of
        Inl e \<Rightarrow> Inl e
      | Inr pkg \<Rightarrow>
     (case get pkg ''version'' of
        Inl e \<Rightarrow> Inl e
      | Inr oldVersion \<Rightarrow>
     (case snd (snd (execSync sh (''npm version '' @ versionType_text type @ '' --no-git-tag-version'') w)) of
        Inl e \<Rightarrow> Inl e
      | Inr u \<Rightarrow>
     (case snd (snd (package_json (snd (sh (''npm version '' @ versionType_text type @ '' --no-git-tag-version'') w)))) of
        Inl e \<Rightarrow> Inl e
      | Inr newPkg \<Rightarrow>
     (case get newPkg ''version'' of
        Inl e \<Rightarrow> Inl e
      | Inr newVersion \<Rightarrow>
          if ToString_throws oldVersion \<or> ToString_throws newVersion then Inl TypeError
          else Inr newVersion)))))"
  by (simp add: updateVersion_def result_then result_rethrow result_template world_basic
      result_basic split: sum.splits)

lemma updateVersion_executed:
  "executed (fst (updateVersion sh type w)) =
     (case snd (snd (package_json w)) of
        Inl e \<Rightarrow> []
      | Inr pkg \<Rightarrow>
     (case get pkg ''version'' of
        Inl e \<Rightarrow> []
      | Inr oldVersion \<Rightarrow> [''npm version '' @ versionType_text type @ '' --no-git-tag-version'']))"
proof -
  have rest: "executed (fst (and_then package_json (\<lambda>newPkg.
        and_then (property_of newPkg ''version'') (\<lambda>newVersion.
        and_then (console_log_template (ps newVersion)) (\<lambda>_. return_io newVersion))) w')) = []" for w' ps
    by (intro quiet_and_then quiet_basic)
  show ?thesis
    unfolding updateVersion_def
    apply (subst executed_then)
    apply (subst executed_rethrow)
    apply (subst executed_then)
    apply (subst executed_then)
    apply (subst executed_then)
    apply (simp add: quiet_basic world_basic result_basic executed_execSync rest split: sum.splits)
    done
qed

lemma executed_update:
  "executed (fst (updateVersion sh type w)) = []
   \<or> executed (fst (updateVersion sh type w)) = [''npm version '' @ versionType_text type @ '' --no-git-tag-version'']"
  by (simp add: updateVersion_executed split: sum.splits)

lemma executed_update_done:
  assumes "snd (snd (updateVersion sh type w)) = Inr v"
  shows "executed (fst (updateVersion sh type w)) = [''npm version '' @ versionType_text type @ '' --no-git-tag-version'']"
  using assms by (auto simp add: updateVersion_executed updateVersion_result split: sum.splits)

lemma update_gives_printable:
  assumes "snd (snd (updateVersion sh type w)) = Inr v"
  shows "\<not> ToString_throws v"
  using assms by (simp add: updateVersion_result split: sum.splits if_splits)

lemma executed_publish:
  "\<exists>c. executed (fst (publishToNpm sh opts w)) = [c]"
proof -
  have view: "executed (fst (and_then (console_log s) (\<lambda>_.
        and_then package_json (\<lambda>pkg.
        and_then (property_of pkg ''name'') (\<lambda>name. console_log_template (ps name)))) w')) = []"
    for s ps w'
    by (intro quiet_and_then quiet_basic)
  show ?thesis
    unfolding publishToNpm_def Let_def
    apply (subst executed_then)
    apply (subst executed_rethrow)
    apply (subst executed_then)
    apply (subst executed_then)
    apply (subst executed_then)
    apply (simp add: quiet_basic world_basic result_basic executed_execSync view split: sum.splits)
    done
qed

lemma workflow_cases:
  "publishWithVersionBump sh versionType opts w =
     (case buildForProduction sh w of
        (t1, w1, Inl e) \<Rightarrow>
          (ConsoleLog (''Full '' @ versionType_text versionType @ '' release workflow...'') # t1, w1, Inl e)
      | (t1, w1, Inr done1) \<Rightarrow>
     (case validatePackage w1 of
        (t2, w2, Inl e) \<Rightarrow>
          (ConsoleLog (''Full '' @ versionType_text versionType @ '' release workflow...'') # t1 @ t2, w2, Inl e)
      | (t2, w2, Inr done2) \<Rightarrow>
     (case updateVersion sh versionType w2 of
        (t3, w3, Inl e) \<Rightarrow>
          (ConsoleLog (''Full '' @ versionType_text versionType @ '' release workflow...'') # t1 @ t2 @ t3, w3, Inl e)
      | (t3, w3, Inr newVersion) \<Rightarrow>
     (case publishToNpm sh opts w3 of
        (t4, w4, Inl e) \<Rightarrow>
          (ConsoleLog (''Full '' @ versionType_text versionType @ '' release workflow...'') # t1 @ t2 @ t3 @ t4, w4, Inl e)
      | (t4, w4, Inr done4) \<Rightarrow>
          (ConsoleLog (''Full '' @ versionType_text versionType @ '' release workflow...'') # t1 @ t2 @ t3 @ t4
             @ [ConsoleLogTemplate [Text ''Successfully released v'', Interpolated newVersion, Text ''!'']],
           w4, Inr ())))))"
proof -
  obtain t1 w1 r1 where s1: "buildForProduction sh w = (t1, w1, r1)"
    by (cases "buildForProduction sh w" rule: prod_cases3)
  obtain t2 w2 r2 where s2: "validatePackage w1 = (t2, w2, r2)"
    by (cases "validatePackage w1" rule: prod_cases3)
  obtain t3 w3 r3 where s3: "updateVersion sh versionType w2 = (t3, w3, r3)"
    by (cases "updateVersion sh versionType w2" rule: prod_cases3)
  obtain t4 w4 r4 where s4: "publishToNpm sh opts w3 = (t4, w4, r4)"
    by (cases "publishToNpm sh opts w3" rule: prod_cases3)
  have printable: "\<not> ToString_throws v" if "r3 = Inr v" for v
    using update_gives_printable [of sh versionType w2 v] s3 that by simp
  show ?thesis
  proof (cases r1)
    case (Inl e)
    then show ?thesis
      by (simp add: publishWithVersionBump_def and_then_def console_log_def s1)
  next
    case b: (Inr u1)
    show ?thesis
    proof (cases r2)
      case (Inl e)
      then show ?thesis
        by (simp add: publishWithVersionBump_def and_then_def console_log_def s1 s2 b)
    next
      case v: (Inr u2)
      show ?thesis
      proof (cases r3)
        case (Inl e)
        then show ?thesis
          by (simp add: publishWithVersionBump_def and_then_def console_log_def s1 s2 s3 b v)
      next
        case n: (Inr newVersion)
        show ?thesis
          using printable [OF n]
          by (cases r4)
             (simp_all add: publishWithVersionBump_def and_then_def console_log_def
                console_log_template_def s1 s2 s3 s4 b v n)
      qed
    qed
  qed
qed

lemma workflow_commands:
  "\<exists>c rest. [''bun run build.ts prod'',
              ''npm version '' @ versionType_text versionType @ '' --no-git-tag-version'', c]
     = executed (fst (publishWithVersionBump sh versionType opts w)) @ rest"
proof -
  obtain t1 w1 r1 where s1: "buildForProduction sh w = (t1, w1, r1)"
    by (cases "buildForProduction sh w" rule: prod_cases3)
  obtain t2 w2 r2 where s2: "validatePackage w1 = (t2, w2, r2)"
    by (cases "validatePackage w1" rule: prod_cases3)
  obtain t3 w3 r3 where s3: "updateVersion sh versionType w2 = (t3, w3, r3)"
    by (cases "updateVersion sh versionType w2" rule: prod_cases3)
  obtain t4 w4 r4 where s4: "publishToNpm sh opts w3 = (t4, w4, r4)"
    by (cases "publishToNpm sh opts w3" rule: prod_cases3)
  have e1: "executed t1 = [''bun run build.ts prod'']"
    using executed_build [of sh w] s1 by simp
  have e2: "executed t2 = []"
    using executed_validate [of w1] s2 by simp
  have e3: "executed t3 = [] \<or> executed t3 = [''npm version '' @ versionType_text versionType @ '' --no-git-tag-version'']"
    using executed_update [of sh versionType w2] s3 by simp
  have e3': "executed t3 = [''npm version '' @ versionType_text versionType @ '' --no-git-tag-version'']"
    if "r3 = Inr v" for v
    using executed_update_done [of sh versionType w2 v] s3 that by simp
  obtain c where e4: "executed t4 = [c]"
    using executed_publish [of sh opts w3] s4 by auto
  show ?thesis
  proof (cases r1)
    case (Inl e)
    then show ?thesis
      by (simp add: workflow_cases s1 e1)
  next
    case b: (Inr u1)
    show ?thesis
    proof (cases r2)
      case (Inl e)
      then show ?thesis
        by (simp add: workflow_cases s1 s2 b e1 e2 executed_append)
    next
      case v: (Inr u2)
      show ?thesis
      proof (cases r3)
        case (Inl e)
        then show ?thesis
          using e3 by (auto simp add: workflow_cases s1 s2 s3 b v e1 e2 executed_append)
      next
        case n: (Inr newVersion)
        show ?thesis
          using e3' [OF n] e4
          by (cases r4) (simp_all add: workflow_cases s1 s2 s3 s4 b v n e1 e2 executed_append)
      qed
    qed
  qed
qed

lemma exists_built:
  "existsSync built ''dist''" "\<forall>f \<in> set requiredFiles. existsSync built f"
  by (simp_all add: existsSync_def built_def requiredFiles_def)

subsection \<open>The claims about the publish script\<close>

text \<open>
  C6. \<^verbatim>\<open>publishWithVersionBump\<close> runs the build, the validation, the version bump and
  the publication in this order, each in the world the step before left. When a step
  throws, the workflow ends there: the events are those of the steps run so far, no later
  step runs, the error is the one the step threw, and the world is the one the failed step
  left (nothing is undone). The commands run are therefore an initial part of the build
  command, the version command and one publish command.
\<close>

theorem release_workflow_order_and_abort:
  "publishWithVersionBump sh versionType opts w =
     (case buildForProduction sh w of
        (t1, w1, Inl e) \<Rightarrow>
          (ConsoleLog (''Full '' @ versionType_text versionType @ '' release workflow...'') # t1, w1, Inl e)
      | (t1, w1, Inr done1) \<Rightarrow>
     (case validatePackage w1 of
        (t2, w2, Inl e) \<Rightarrow>
          (ConsoleLog (''Full '' @ versionType_text versionType @ '' release workflow...'') # t1 @ t2, w2, Inl e)
      | (t2, w2, Inr done2) \<Rightarrow>
     (case updateVersion sh versionType w2 of
        (t3, w3, Inl e) \<Rightarrow>
          (ConsoleLog (''Full '' @ versionType_text versionType @ '' release workflow...'') # t1 @ t2 @ t3, w3, Inl e)
      | (t3, w3, Inr newVersion) \<Rightarrow>
     (case publishToNpm sh opts w3 of
        (t4, w4, Inl e) \<Rightarrow>
          (ConsoleLog (''Full '' @ versionType_text versionType @ '' release workflow...'') # t1 @ t2 @ t3 @ t4, w4, Inl e)
      | (t4, w4, Inr done4) \<Rightarrow>
          (ConsoleLog (''Full '' @ versionType_text versionType @ '' release workflow...'') # t1 @ t2 @ t3 @ t4
             @ [ConsoleLogTemplate [Text ''Successfully released v'', Interpolated newVersion, Text ''!'']],
           w4, Inr ())))))
   \<and> (\<exists>c rest. [''bun run build.ts prod'',
                 ''npm version '' @ versionType_text versionType @ '' --no-git-tag-version'', c]
          = executed (fst (publishWithVersionBump sh versionType opts w)) @ rest)"
  using workflow_cases [of sh versionType opts w] workflow_commands [of versionType sh opts w]
  by (rule conjI)

text \<open>
  A release that succeeds, and one whose version bump fails: the publication is not
  run, and the error is that of \<^verbatim>\<open>execSync\<close>.
\<close>
theorem release_workflow_order_and_abort_witness:
  "publishWithVersionBump tools_ok patch (publish_options [''bun'', ''publish.ts'', ''patch'']) built
     = ([ConsoleLog ''Full patch release workflow...'',
         ConsoleLog ''Building for production...'',
         ExecSync ''bun run build.ts prod'',
         ConsoleLog ''Production build completed'',
         ConsoleLog ''Validating package...'',
         ConsoleLog ''Package validation passed'',
         ConsoleLogTemplate [Text ''   '', Interpolated (Some (JString ''@g8k/js-pkg-go'')), Text ''@'',
                             Interpolated (Some (JString ''0.0.1''))],
         ConsoleLogTemplate [Text ''   '', Text ''No description''],
         ConsoleLog ''Updating version (patch)...'',
         ExecSync ''npm version patch --no-git-tag-version'',
         ConsoleLogTemplate [Text ''Version updated: '', Interpolated (Some (JString ''0.0.1'')),
                             Text '' -> '', Interpolated (Some (JString ''0.0.1''))],
         ConsoleLog ''Publishing to npm...'',
         ConsoleLog ''Command: bun publish'',
         ExecSync ''bun publish'',
         ConsoleLog ''Published to npm successfully!'',
         ConsoleLogTemplate [Text ''View on npm: https://www.npmjs.com/package/'',
                             Interpolated (Some (JString ''@g8k/js-pkg-go''))],
         ConsoleLogTemplate [Text ''Successfully released v'', Interpolated (Some (JString ''0.0.1'')),
                             Text ''!'']],
        built, Inr ())
   \<and> publishWithVersionBump tools_no_bump patch (publish_options [''bun'', ''publish.ts'', ''patch'']) built
     = ([ConsoleLog ''Full patch release workflow...'',
         ConsoleLog ''Building for production...'',
         ExecSync ''bun run build.ts prod'',
         ConsoleLog ''Production build completed'',
         ConsoleLog ''Validating package...'',
         ConsoleLog ''Package validation passed'',
         ConsoleLogTemplate [Text ''   '', Interpolated (Some (JString ''@g8k/js-pkg-go'')), Text ''@'',
                             Interpolated (Some (JString ''0.0.1''))],
         ConsoleLogTemplate [Text ''   '', Text ''No description''],
         ConsoleLog ''Updating version (patch)...'',
         ExecSync ''npm version patch --no-git-tag-version'',
         ConsoleError ''Failed to update version''],
        built, Inl (ExecSyncError ''npm version patch --no-git-tag-version'' 1))"
proof -
  have pj: "package_json built = ([], built, Inr the_manifest)"
    by (simp add: package_json_def existsSync_def built_def)
  have g: "property_of the_manifest ''name'' built = ([], built, Inr (Some (JString ''@g8k/js-pkg-go'')))"
    "property_of the_manifest ''version'' built = ([], built, Inr (Some (JString ''0.0.1'')))"
    "property_of the_manifest ''main'' built = ([], built, Inr None)"
    "property_of the_manifest ''module'' built = ([], built, Inr (Some (JString ''index.ts'')))"
    "property_of the_manifest ''exports'' built = ([], built, Inr None)"
    "property_of the_manifest ''description'' built = ([], built, Inr None)"
    by (simp_all add: property_of_def the_manifest_def)
  have vm: "validate_manifest built =
      ([ConsoleLog ''Package validation passed'',
        ConsoleLogTemplate [Text ''   '', Interpolated (Some (JString ''@g8k/js-pkg-go'')), Text ''@'',
                            Interpolated (Some (JString ''0.0.1''))],
        ConsoleLogTemplate [Text ''   '', Text ''No description'']], built, Inr ())"
    by (simp add: validate_manifest_def and_then_def pj g console_log_def console_log_template_def)
  have cr: "check_required requiredFiles built = ([], built, Inr ())"
    by (simp add: check_required_find requiredFiles_def existsSync_def built_def)
  have v: "validatePackage built =
      ([ConsoleLog ''Validating package...'',
        ConsoleLog ''Package validation passed'',
        ConsoleLogTemplate [Text ''   '', Interpolated (Some (JString ''@g8k/js-pkg-go'')), Text ''@'',
                            Interpolated (Some (JString ''0.0.1''))],
        ConsoleLogTemplate [Text ''   '', Text ''No description'']], built, Inr ())"
    using exists_built(1)
    by (simp add: validatePackage_def and_then_def try_catch_def console_log_def cr vm)
  have b: "buildForProduction tools_ok built =
      ([ConsoleLog ''Building for production...'', ExecSync ''bun run build.ts prod'',
        ConsoleLog ''Production build completed''], built, Inr ())"
    "buildForProduction tools_no_bump built =
      ([ConsoleLog ''Building for production...'', ExecSync ''bun run build.ts prod'',
        ConsoleLog ''Production build completed''], built, Inr ())"
    by (simp_all add: buildForProduction_def and_then_def try_catch_def console_log_def
        execSync_def tools_ok_def tools_no_bump_def)
  have u: "updateVersion tools_ok patch built =
      ([ConsoleLog ''Updating version (patch)...'',
        ExecSync ''npm version patch --no-git-tag-version'',
        ConsoleLogTemplate [Text ''Version updated: '', Interpolated (Some (JString ''0.0.1'')),
                            Text '' -> '', Interpolated (Some (JString ''0.0.1''))]],
       built, Inr (Some (JString ''0.0.1'')))"
    by (simp add: updateVersion_def and_then_def try_catch_def console_log_def
        console_log_template_def return_io_def execSync_def tools_ok_def pj g)
  have u': "updateVersion tools_no_bump patch built =
      ([ConsoleLog ''Updating version (patch)...'',
        ExecSync ''npm version patch --no-git-tag-version'',
        ConsoleError ''Failed to update version''],
       built, Inl (ExecSyncError ''npm version patch --no-git-tag-version'' 1))"
    by (simp add: updateVersion_def and_then_def try_catch_def console_log_def console_error_def
        throw_def console_log_template_def return_io_def execSync_def tools_no_bump_def pj g)
  have p: "publishToNpm tools_ok (publish_options [''bun'', ''publish.ts'', ''patch'']) built =
      ([ConsoleLog ''Publishing to npm...'',
        ConsoleLog ''Command: bun publish'',
        ExecSync ''bun publish'',
        ConsoleLog ''Published to npm successfully!'',
        ConsoleLogTemplate [Text ''View on npm: https://www.npmjs.com/package/'',
                            Interpolated (Some (JString ''@g8k/js-pkg-go''))]],
       built, Inr ())"
    by (simp add: publishToNpm_def publish_options_def valued_def array_includes_def spread_def
        DEFAULT_OPTIONS_def and_then_def try_catch_def console_log_def console_log_template_def
        return_io_def execSync_def tools_ok_def pj g Let_def)
  show ?thesis
    using release_workflow_order_and_abort [of tools_ok patch "publish_options [''bun'', ''publish.ts'', ''patch'']" built]
      release_workflow_order_and_abort [of tools_no_bump patch "publish_options [''bun'', ''publish.ts'', ''patch'']" built]
    by (simp add: b v u u' p)
qed

text \<open>
  C7, as amended. \<^verbatim>\<open>validatePackage\<close> throws exactly when the directory dist does not
  exist, or one of the four required paths does not exist, or package.json does not hold
  a JSON value with a truthy \<^verbatim>\<open>name\<close>, a truthy \<^verbatim>\<open>version\<close> and a truthy \<^verbatim>\<open>main\<close>,
  \<^verbatim>\<open>module\<close> or \<^verbatim>\<open>exports\<close>, or the \<^verbatim>\<open>name\<close>, the \<^verbatim>\<open>version\<close> or a truthy
  \<^verbatim>\<open>description\<close> cannot be converted to a string for the lines that report them.
  Without dist the error is \<^verbatim>\<open>Build required before publishing\<close>, which names no file.
  With dist, the error names the first required file that does not exist. With all files
  there, a text that is not JSON gives the parser's error, \<^verbatim>\<open>null\<close> a type error,
  otherwise the error names the first of \<^verbatim>\<open>name\<close>, \<^verbatim>\<open>version\<close> and the entry point that
  is missing or falsy, and with all three there a failed conversion gives a type error.
\<close>
theorem validatePackage_failures:
  "((\<exists>e. snd (snd (validatePackage w)) = Inl e) \<longleftrightarrow>
      \<not> (existsSync w ''dist'' \<and> (\<forall>f \<in> set requiredFiles. existsSync w f)
         \<and> (\<exists>p n v m1 m2 m3 d.
              manifest w = Some p \<and> get p ''name'' = Inr n \<and> get p ''version'' = Inr v
              \<and> get p ''main'' = Inr m1 \<and> get p ''module'' = Inr m2 \<and> get p ''exports'' = Inr m3
              \<and> get p ''description'' = Inr d
              \<and> truthy_json n \<and> truthy_json v
              \<and> (truthy_json m1 \<or> truthy_json m2 \<or> truthy_json m3)
              \<and> \<not> ToString_throws n \<and> \<not> ToString_throws v
              \<and> \<not> (truthy_json d \<and> ToString_throws d))))
   \<and> (\<not> existsSync w ''dist'' \<longrightarrow>
        snd (snd (validatePackage w)) = Inl (Error ''Build required before publishing''))
   \<and> (existsSync w ''dist'' \<and> find (\<lambda>f. \<not> existsSync w f) requiredFiles = Some f \<longrightarrow>
        snd (snd (validatePackage w)) = Inl (Error (''Missing required file: '' @ f)))
   \<and> (existsSync w ''dist'' \<and> (\<forall>f \<in> set requiredFiles. existsSync w f) \<and> manifest w = None \<longrightarrow>
        snd (snd (validatePackage w)) = Inl SyntaxError)
   \<and> (existsSync w ''dist'' \<and> (\<forall>f \<in> set requiredFiles. existsSync w f) \<and> manifest w = Some JNull \<longrightarrow>
        snd (snd (validatePackage w)) = Inl TypeError)
   \<and> (existsSync w ''dist'' \<and> (\<forall>f \<in> set requiredFiles. existsSync w f) \<and> manifest w = Some pkg
        \<and> get pkg ''name'' = Inr name \<and> get pkg ''version'' = Inr version
        \<and> get pkg ''main'' = Inr main \<and> get pkg ''module'' = Inr modul \<and> get pkg ''exports'' = Inr exports
        \<and> get pkg ''description'' = Inr description \<longrightarrow>
        (\<not> truthy_json name \<longrightarrow>
           snd (snd (validatePackage w)) = Inl (Error ''package.json missing 'name' field''))
      \<and> (truthy_json name \<and> \<not> truthy_json version \<longrightarrow>
           snd (snd (validatePackage w)) = Inl (Error ''package.json missing 'version' field''))
      \<and> (truthy_json name \<and> truthy_json version
           \<and> \<not> truthy_json main \<and> \<not> truthy_json modul \<and> \<not> truthy_json exports \<longrightarrow>
           snd (snd (validatePackage w)) =
             Inl (Error ''package.json missing entry point (main/module/exports)''))
      \<and> (truthy_json name \<and> truthy_json version
           \<and> (truthy_json main \<or> truthy_json modul \<or> truthy_json exports)
           \<and> (ToString_throws name \<or> ToString_throws version
                \<or> truthy_json description \<and> ToString_throws description) \<longrightarrow>
           snd (snd (validatePackage w)) = Inl TypeError))"
proof -
  let ?r = "snd (snd (validatePackage w))"
  have nodist: "\<not> existsSync w ''dist'' \<Longrightarrow> ?r = Inl (Error ''Build required before publishing'')"
    by (simp add: validatePackage_result)
  have missing: "existsSync w ''dist'' \<Longrightarrow> find (\<lambda>f. \<not> existsSync w f) requiredFiles = Some f \<Longrightarrow>
      ?r = Inl (Error (''Missing required file: '' @ f))" for f
    by (simp add: validatePackage_result)
  have present: "?r = snd (snd (validate_manifest w))" "existsSync w ''package.json''"
    if "existsSync w ''dist''" "\<forall>f \<in> set requiredFiles. existsSync w f"
    using that all_required_exist [of w]
    by (simp_all add: validatePackage_result) (simp add: requiredFiles_def)
  have manifest: "?r =
     (case manifest w of
        None \<Rightarrow> Inl SyntaxError
      | Some pkg \<Rightarrow>
          (case get pkg ''name'' of
             Inl e \<Rightarrow> Inl e
           | Inr name \<Rightarrow>
               if \<not> truthy_json name then Inl (Error ''package.json missing 'name' field'')
               else (case get pkg ''version'' of
                  Inl e \<Rightarrow> Inl e
                | Inr version \<Rightarrow>
                    if \<not> truthy_json version then Inl (Error ''package.json missing 'version' field'')
                    else (case (get pkg ''main'', get pkg ''module'', get pkg ''exports'',
                                get pkg ''description'') of
                       (Inr main, Inr modul, Inr exports, Inr description) \<Rightarrow>
                         if \<not> truthy_json main \<and> \<not> truthy_json modul \<and> \<not> truthy_json exports
                         then Inl (Error ''package.json missing entry point (main/module/exports)'')
                         else if ToString_throws name \<or> ToString_throws version then Inl TypeError
                         else if truthy_json description \<and> ToString_throws description then Inl TypeError
                         else Inr ()
                     | _ \<Rightarrow> Inl TypeError))))"
    if "existsSync w ''dist''" "\<forall>f \<in> set requiredFiles. existsSync w f"
    using present [OF that] validate_manifest_result [of w] by simp
  have iff: "(\<exists>e. ?r = Inl e) \<longleftrightarrow>
      \<not> (existsSync w ''dist'' \<and> (\<forall>f \<in> set requiredFiles. existsSync w f)
         \<and> (\<exists>p n v m1 m2 m3 d.
              manifest w = Some p \<and> get p ''name'' = Inr n \<and> get p ''version'' = Inr v
              \<and> get p ''main'' = Inr m1 \<and> get p ''module'' = Inr m2 \<and> get p ''exports'' = Inr m3
              \<and> get p ''description'' = Inr d
              \<and> truthy_json n \<and> truthy_json v
              \<and> (truthy_json m1 \<or> truthy_json m2 \<or> truthy_json m3)
              \<and> \<not> ToString_throws n \<and> \<not> ToString_throws v
              \<and> \<not> (truthy_json d \<and> ToString_throws d)))"
  proof (cases "existsSync w ''dist'' \<and> (\<forall>f \<in> set requiredFiles. existsSync w f)")
    case True
    then have d: "existsSync w ''dist''" and a: "\<forall>f \<in> set requiredFiles. existsSync w f"
      by simp_all
    show ?thesis
    proof (cases "manifest w")
      case None
      then show ?thesis
        by (simp add: manifest [OF d a])
    next
      case (Some p)
      show ?thesis
      proof (cases "p = JNull")
        case True
        then show ?thesis
          by (simp add: manifest [OF d a] Some)
      next
        case False
        obtain n where n: "get p ''name'' = Inr n"
          using get_not_null [OF False] by blast
        obtain v where v: "get p ''version'' = Inr v"
          using get_not_null [OF False] by blast
        obtain m1 where m1: "get p ''main'' = Inr m1"
          using get_not_null [OF False] by blast
        obtain m2 where m2: "get p ''module'' = Inr m2"
          using get_not_null [OF False] by blast
        obtain m3 where m3: "get p ''exports'' = Inr m3"
          using get_not_null [OF False] by blast
        obtain dd where dd: "get p ''description'' = Inr dd"
          using get_not_null [OF False] by blast
        show ?thesis
          using d a by (simp add: manifest [OF d a] Some n v m1 m2 m3 dd)
      qed
    qed
  next
    case False
    then consider "\<not> existsSync w ''dist''"
      | f where "existsSync w ''dist''" "find (\<lambda>f. \<not> existsSync w f) requiredFiles = Some f"
      using all_required_exist [of w] by (cases "find (\<lambda>f. \<not> existsSync w f) requiredFiles") auto
    then have "\<exists>e. ?r = Inl e"
      using nodist missing by cases auto
    with False show ?thesis by blast
  qed
  have fields: "(\<not> truthy_json name \<longrightarrow> ?r = Inl (Error ''package.json missing 'name' field''))
      \<and> (truthy_json name \<and> \<not> truthy_json version \<longrightarrow>
           ?r = Inl (Error ''package.json missing 'version' field''))
      \<and> (truthy_json name \<and> truthy_json version
           \<and> \<not> truthy_json main \<and> \<not> truthy_json modul \<and> \<not> truthy_json exports \<longrightarrow>
           ?r = Inl (Error ''package.json missing entry point (main/module/exports)''))
      \<and> (truthy_json name \<and> truthy_json version
           \<and> (truthy_json main \<or> truthy_json modul \<or> truthy_json exports)
           \<and> (ToString_throws name \<or> ToString_throws version
                \<or> truthy_json description \<and> ToString_throws description) \<longrightarrow>
           ?r = Inl TypeError)"
    if "existsSync w ''dist''" "\<forall>f \<in> set requiredFiles. existsSync w f" "manifest w = Some pkg"
      "get pkg ''name'' = Inr name" "get pkg ''version'' = Inr version"
      "get pkg ''main'' = Inr main" "get pkg ''module'' = Inr modul" "get pkg ''exports'' = Inr exports"
      "get pkg ''description'' = Inr description"
    using that(3-) by (simp add: manifest [OF that(1,2)])
  have unparsed: "?r = Inl SyntaxError"
    if "existsSync w ''dist''" "\<forall>f \<in> set requiredFiles. existsSync w f" "manifest w = None"
    using that(3) by (simp add: manifest [OF that(1,2)])
  have isnull: "?r = Inl TypeError"
    if "existsSync w ''dist''" "\<forall>f \<in> set requiredFiles. existsSync w f" "manifest w = Some JNull"
    using that(3) by (simp add: manifest [OF that(1,2)])
  have c2: "\<not> existsSync w ''dist'' \<longrightarrow> ?r = Inl (Error ''Build required before publishing'')"
    using nodist by (rule impI)
  have c3: "existsSync w ''dist'' \<and> find (\<lambda>f. \<not> existsSync w f) requiredFiles = Some f \<longrightarrow>
        ?r = Inl (Error (''Missing required file: '' @ f))"
    by (intro impI, elim conjE, rule missing)
  have c4: "existsSync w ''dist'' \<and> (\<forall>f \<in> set requiredFiles. existsSync w f) \<and> manifest w = None \<longrightarrow>
        ?r = Inl SyntaxError"
    by (intro impI, elim conjE, rule unparsed)
  have c5: "existsSync w ''dist'' \<and> (\<forall>f \<in> set requiredFiles. existsSync w f) \<and> manifest w = Some JNull \<longrightarrow>
        ?r = Inl TypeError"
    by (intro impI, elim conjE, rule isnull)
  have c6: "existsSync w ''dist'' \<and> (\<forall>f \<in> set requiredFiles. existsSync w f) \<and> manifest w = Some pkg
        \<and> get pkg ''name'' = Inr name \<and> get pkg ''version'' = Inr version
        \<and> get pkg ''main'' = Inr main \<and> get pkg ''module'' = Inr modul \<and> get pkg ''exports'' = Inr exports
        \<and> get pkg ''description'' = Inr description \<longrightarrow>
        (\<not> truthy_json name \<longrightarrow> ?r = Inl (Error ''package.json missing 'name' field''))
      \<and> (truthy_json name \<and> \<not> truthy_json version \<longrightarrow>
           ?r = Inl (Error ''package.json missing 'version' field''))
      \<and> (truthy_json name \<and> truthy_json version
           \<and> \<not> truthy_json main \<and> \<not> truthy_json modul \<and> \<not> truthy_json exports \<longrightarrow>
           ?r = Inl (Error ''package.json missing entry point (main/module/exports)''))
      \<and> (truthy_json name \<and> truthy_json version
           \<and> (truthy_json main \<or> truthy_json modul \<or> truthy_json exports)
           \<and> (ToString_throws name \<or> ToString_throws version
                \<or> truthy_json description \<and> ToString_throws description) \<longrightarrow>
           ?r = Inl TypeError)"
    by (rule impI, elim conjE, rule fields)
  show ?thesis
    by (intro conjI) (rule iff, rule c2, rule c3, rule c4, rule c5, rule c6)
qed

text \<open>
  The outcomes: no dist, no readme, no version in the manifest, a package that passes, and
  a manifest whose name is an object with a key \<^verbatim>\<open>toString\<close>.
\<close>
theorem validatePackage_failures_witness:
  "\<not> existsSync unbuilt ''dist''
   \<and> snd (snd (validatePackage unbuilt)) = Inl (Error ''Build required before publishing'')
   \<and> existsSync no_readme ''dist''
   \<and> find (\<lambda>f. \<not> existsSync no_readme f) requiredFiles = Some ''README.md''
   \<and> snd (snd (validatePackage no_readme)) = Inl (Error ''Missing required file: README.md'')
   \<and> existsSync no_version ''dist''
   \<and> list_all (existsSync no_version) requiredFiles
   \<and> snd (snd (validatePackage no_version)) = Inl (Error ''package.json missing 'version' field'')
   \<and> existsSync built ''dist''
   \<and> list_all (existsSync built) requiredFiles
   \<and> snd (snd (validatePackage built)) = Inr ()
   \<and> existsSync odd_name ''dist''
   \<and> list_all (existsSync odd_name) requiredFiles
   \<and> snd (snd (validatePackage odd_name)) = Inl TypeError"
proof -
  have u: "\<not> existsSync unbuilt ''dist''"
    by (simp add: existsSync_def unbuilt_def)
  have r: "existsSync no_readme ''dist''"
    "find (\<lambda>f. \<not> existsSync no_readme f) requiredFiles = Some ''README.md''"
    by (simp_all add: existsSync_def no_readme_def requiredFiles_def)
  have v: "existsSync no_version ''dist''" "\<forall>f \<in> set requiredFiles. existsSync no_version f"
    "manifest no_version = Some (JObject [(''name'', JString ''@g8k/js-pkg-go''), (''main'', JString ''dist/index.js'')])"
    by (simp_all add: existsSync_def no_version_def requiredFiles_def)
  have vg: "get (JObject [(''name'', JString ''@g8k/js-pkg-go''), (''main'', JString ''dist/index.js'')]) ''name'' = Inr (Some (JString ''@g8k/js-pkg-go''))"
    "get (JObject [(''name'', JString ''@g8k/js-pkg-go''), (''main'', JString ''dist/index.js'')]) ''description'' = Inr None"
    "get (JObject [(''name'', JString ''@g8k/js-pkg-go''), (''main'', JString ''dist/index.js'')]) ''version'' = Inr None"
    "get (JObject [(''name'', JString ''@g8k/js-pkg-go''), (''main'', JString ''dist/index.js'')]) ''main'' = Inr (Some (JString ''dist/index.js''))"
    "get (JObject [(''name'', JString ''@g8k/js-pkg-go''), (''main'', JString ''dist/index.js'')]) ''module'' = Inr None"
    "get (JObject [(''name'', JString ''@g8k/js-pkg-go''), (''main'', JString ''dist/index.js'')]) ''exports'' = Inr None"
    by simp_all
  have b: "existsSync built ''dist''" "\<forall>f \<in> set requiredFiles. existsSync built f"
    "manifest built = Some the_manifest"
    by (simp_all add: existsSync_def built_def requiredFiles_def)
  have bg: "get the_manifest ''name'' = Inr (Some (JString ''@g8k/js-pkg-go''))"
    "get the_manifest ''version'' = Inr (Some (JString ''0.0.1''))"
    "get the_manifest ''main'' = Inr None"
    "get the_manifest ''module'' = Inr (Some (JString ''index.ts''))"
    "get the_manifest ''exports'' = Inr None"
    "get the_manifest ''description'' = Inr None"
    by (simp_all add: the_manifest_def)
  have o: "existsSync odd_name ''dist''" "\<forall>f \<in> set requiredFiles. existsSync odd_name f"
    "manifest odd_name = Some (JObject [(''name'', JObject [(''toString'', JNull)]),
       (''version'', JString ''1.0.0''), (''main'', JString ''index.js'')])"
    by (simp_all add: existsSync_def odd_name_def requiredFiles_def)
  have og: "get (JObject [(''name'', JObject [(''toString'', JNull)]),
       (''version'', JString ''1.0.0''), (''main'', JString ''index.js'')]) ''name'' = Inr (Some (JObject [(''toString'', JNull)]))"
    "get (JObject [(''name'', JObject [(''toString'', JNull)]),
       (''version'', JString ''1.0.0''), (''main'', JString ''index.js'')]) ''version'' = Inr (Some (JString ''1.0.0''))"
    "get (JObject [(''name'', JObject [(''toString'', JNull)]),
       (''version'', JString ''1.0.0''), (''main'', JString ''index.js'')]) ''main'' = Inr (Some (JString ''index.js''))"
    "get (JObject [(''name'', JObject [(''toString'', JNull)]),
       (''version'', JString ''1.0.0''), (''main'', JString ''index.js'')]) ''module'' = Inr None"
    "get (JObject [(''name'', JObject [(''toString'', JNull)]),
       (''version'', JString ''1.0.0''), (''main'', JString ''index.js'')]) ''exports'' = Inr None"
    "get (JObject [(''name'', JObject [(''toString'', JNull)]),
       (''version'', JString ''1.0.0''), (''main'', JString ''index.js'')]) ''description'' = Inr None"
    by simp_all
  have ok: "\<exists>p n v m1 m2 m3 d.
              manifest built = Some p \<and> get p ''name'' = Inr n \<and> get p ''version'' = Inr v
              \<and> get p ''main'' = Inr m1 \<and> get p ''module'' = Inr m2 \<and> get p ''exports'' = Inr m3
              \<and> get p ''description'' = Inr d
              \<and> truthy_json n \<and> truthy_json v
              \<and> (truthy_json m1 \<or> truthy_json m2 \<or> truthy_json m3)
              \<and> \<not> ToString_throws n \<and> \<not> ToString_throws v
              \<and> \<not> (truthy_json d \<and> ToString_throws d)"
    using b(3) bg by simp
  have 1: "snd (snd (validatePackage unbuilt)) = Inl (Error ''Build required before publishing'')"
    using u validatePackage_failures [where w = unbuilt, THEN conjunct2, THEN conjunct1]
    by (rule rev_mp)
  have 2: "snd (snd (validatePackage no_readme)) = Inl (Error ''Missing required file: README.md'')"
    using r validatePackage_failures [where w = no_readme and f = "''README.md''",
        THEN conjunct2, THEN conjunct2, THEN conjunct1]
    by simp
  have 3: "snd (snd (validatePackage no_version)) = Inl (Error ''package.json missing 'version' field'')"
    using v vg validatePackage_failures [where w = no_version
        and pkg = "JObject [(''name'', JString ''@g8k/js-pkg-go''), (''main'', JString ''dist/index.js'')]"
        and name = "Some (JString ''@g8k/js-pkg-go'')" and version = None
        and main = "Some (JString ''dist/index.js'')" and modul = None and exports = None
        and description = None,
        THEN conjunct2, THEN conjunct2, THEN conjunct2, THEN conjunct2, THEN conjunct2]
    by simp
  have "\<not> (\<exists>e. snd (snd (validatePackage built)) = Inl e)"
    using b(1,2) ok validatePackage_failures [where w = built, THEN conjunct1] by blast
  then have 4: "snd (snd (validatePackage built)) = Inr ()"
    by (cases "snd (snd (validatePackage built))") simp_all
  have 5: "snd (snd (validatePackage odd_name)) = Inl TypeError"
    using o og validatePackage_failures [where w = odd_name
        and pkg = "JObject [(''name'', JObject [(''toString'', JNull)]),
            (''version'', JString ''1.0.0''), (''main'', JString ''index.js'')]"
        and name = "Some (JObject [(''toString'', JNull)])" and version = "Some (JString ''1.0.0'')"
        and main = "Some (JString ''index.js'')" and modul = None and exports = None
        and description = None,
        THEN conjunct2, THEN conjunct2, THEN conjunct2, THEN conjunct2, THEN conjunct2]
    by simp
  show ?thesis
    using u r v(1,2) b(1,2) o(1,2) 1 2 3 4 5 by (simp add: list_all_iff)
qed

text \<open>
  C7 as stated fails before a build: dist/index.js does not exist, and the error thrown
  names neither it nor any other path. It fails also for a built package whose manifest
  has all the fields, with a name that has no string: every required path exists, no
  field is missing, and a type error is thrown.
\<close>
theorem validatePackage_unnamed_file_counterexample:
  "\<not> existsSync unbuilt ''dist/index.js''
   \<and> snd (snd (validatePackage unbuilt)) = Inl (Error ''Build required before publishing'')
   \<and> list_all (existsSync odd_name) requiredFiles
   \<and> manifest odd_name =
         Some (JObject [(''name'', JObject [(''toString'', JNull)]),
                        (''version'', JString ''1.0.0''),
                        (''main'', JString ''index.js'')])
   \<and> snd (snd (validatePackage odd_name)) = Inl TypeError"
proof -
  have u: "\<not> existsSync unbuilt ''dist/index.js''
      \<and> snd (snd (validatePackage unbuilt)) = Inl (Error ''Build required before publishing'')"
    by (simp add: validatePackage_result existsSync_def unbuilt_def)
  have f: "list_all (existsSync odd_name) requiredFiles"
    by (simp add: existsSync_def odd_name_def requiredFiles_def)
  have m: "manifest odd_name =
         Some (JObject [(''name'', JObject [(''toString'', JNull)]),
                        (''version'', JString ''1.0.0''),
                        (''main'', JString ''index.js'')])"
    by (simp add: odd_name_def)
  have e: "existsSync odd_name ''dist''"
    "find (\<lambda>f. \<not> existsSync odd_name f) requiredFiles = None"
    by (simp_all add: existsSync_def odd_name_def requiredFiles_def)
  have pj: "existsSync odd_name ''package.json''"
    by (simp add: existsSync_def odd_name_def)
  have vm: "snd (snd (validate_manifest odd_name)) = Inl TypeError"
    by (simp add: validate_manifest_result [OF pj] m)
  have o: "snd (snd (validatePackage odd_name)) = Inl TypeError"
    by (simp add: validatePackage_result e vm)
  show ?thesis
    using u f m o by simp
qed

section \<open>Properties of the summation function\<close>

subsection \<open>The binary exponent\<close>

text \<open>
  The exponent that the rounding uses is the binary exponent of its argument, for every
  rational other than zero.
\<close>

lemma pow2_powi: "pow2 e = 2 powi e"
  by (simp add: pow2_def power_int_def field_simps)

lemma ilog2_bounds:
  assumes "x \<noteq> 0"
  shows "pow2 (ilog2 x) \<le> \<bar>x\<bar> \<and> \<bar>x\<bar> < pow2 (ilog2 x + 1)"
proof -
  obtain p q where pq: "quotient_of \<bar>x\<bar> = (p, q)"
    by (cases "quotient_of \<bar>x\<bar>")
  have q: "0 < q"
    using pq by (rule quotient_of_denom_pos)
  have x: "\<bar>x\<bar> = of_int p / of_int q"
    using pq by (rule quotient_of_div)
  have p: "0 < p"
  proof -
    have "0 < \<bar>x\<bar>" using assms by simp
    then have "0 < rat_of_int p / rat_of_int q" by (simp only: x)
    with q show ?thesis by (simp add: zero_less_divide_iff)
  qed
  define bp bq where "bp = bitlen p" and "bq = bitlen q"
  have bp: "rat_of_int p < 2 powi bp" "2 powi (bp - 1) \<le> rat_of_int p" "1 \<le> bp"
  proof -
    have b: "1 \<le> bitlen p" using p by (simp add: bitlen_alt_def)
    from bitlen_bounds [OF p] have "p < 2 ^ nat (bitlen p)" "2 ^ nat (bitlen p - 1) \<le> p"
      by simp_all
    then have "rat_of_int p < rat_of_int (2 ^ nat (bitlen p))"
      "rat_of_int (2 ^ nat (bitlen p - 1)) \<le> rat_of_int p"
      by (simp_all only: of_int_less_iff of_int_le_iff)
    then show "rat_of_int p < 2 powi bp" "2 powi (bp - 1) \<le> rat_of_int p" "1 \<le> bp"
      using b by (simp_all add: bp_def power_int_def)
  qed
  have bq: "rat_of_int q < 2 powi bq" "2 powi (bq - 1) \<le> rat_of_int q" "1 \<le> bq"
  proof -
    have b: "1 \<le> bitlen q" using q by (simp add: bitlen_alt_def)
    from bitlen_bounds [OF q] have "q < 2 ^ nat (bitlen q)" "2 ^ nat (bitlen q - 1) \<le> q"
      by simp_all
    then have "rat_of_int q < rat_of_int (2 ^ nat (bitlen q))"
      "rat_of_int (2 ^ nat (bitlen q - 1)) \<le> rat_of_int q"
      by (simp_all only: of_int_less_iff of_int_le_iff)
    then show "rat_of_int q < 2 powi bq" "2 powi (bq - 1) \<le> rat_of_int q" "1 \<le> bq"
      using b by (simp_all add: bq_def power_int_def)
  qed
  have qpos: "0 < rat_of_int q" "0 < rat_of_int p"
    using q p by simp_all
  have pw: "0 < (2::rat) powi k" for k
    by simp
  have upper: "\<bar>x\<bar> < 2 powi (bp - bq + 1)"
  proof -
    have "rat_of_int p / rat_of_int q < 2 powi bp / rat_of_int q"
      using bp(1) qpos(1) by (simp add: divide_strict_right_mono)
    also have "\<dots> \<le> 2 powi bp / 2 powi (bq - 1)"
      using bq(2) pw [of bp] mult_pos_pos [OF qpos(1) pw [of "bq - 1"]]
      by (intro divide_left_mono) simp_all
    also have "\<dots> = 2 powi (bp - bq + 1)"
      by (simp add: power_int_diff [symmetric] algebra_simps)
    finally show ?thesis by (simp only: x)
  qed
  have lower: "2 powi (bp - bq - 1) < \<bar>x\<bar>"
  proof -
    have "2 powi (bp - bq - 1) = 2 powi (bp - 1) / (2 powi bq :: rat)"
      by (simp add: power_int_diff [symmetric] algebra_simps)
    also have "\<dots> < 2 powi (bp - 1) / rat_of_int q"
      using bq(1) pw [of "bp - 1"] mult_pos_pos [OF pw [of bq] qpos(1)]
      by (intro divide_strict_left_mono) simp_all
    also have "\<dots> \<le> rat_of_int p / rat_of_int q"
      using bp(2) qpos(1) by (simp add: divide_right_mono)
    finally show ?thesis by (simp only: x)
  qed
  have il: "ilog2 x = (if 2 powi (bp - bq) \<le> \<bar>x\<bar> then bp - bq else bp - bq - 1)"
    by (simp add: ilog2_def pq bp_def bq_def pow2_powi Let_def)
  show ?thesis
  proof (cases "2 powi (bp - bq) \<le> \<bar>x\<bar>")
    case True
    then show ?thesis
      using upper by (simp add: il pow2_powi)
  next
    case False
    then show ?thesis
      using lower by (simp add: il pow2_powi)
  qed
qed

subsection \<open>Integers up to \<open>2 ^ 53\<close> are added exactly\<close>

lemma round_half_even_of_int: "round_half_even (of_int k) = k"
  by (simp add: round_half_even_def)

lemma ilog2_of_int:
  assumes "n \<noteq> 0"
  shows "ilog2 (of_int n) = bitlen \<bar>n\<bar> - 1"
proof -
  have pos: "0 < \<bar>n\<bar>" using assms by simp
  have q: "quotient_of \<bar>rat_of_int n\<bar> = (\<bar>n\<bar>, 1)"
    by (metis of_int_abs quotient_of_rat_of_int)
  have b1: "bitlen 1 = 1"
    by (simp add: bitlen_alt_def)
  have ge1: "1 \<le> bitlen \<bar>n\<bar>"
    using pos by (simp add: bitlen_alt_def)
  from bitlen_bounds [OF pos] have "2 ^ nat (bitlen \<bar>n\<bar> - 1) \<le> \<bar>n\<bar>" by simp
  then have "rat_of_int (2 ^ nat (bitlen \<bar>n\<bar> - 1)) \<le> rat_of_int \<bar>n\<bar>"
    by (simp only: of_int_le_iff)
  then have "pow2 (bitlen \<bar>n\<bar> - 1) \<le> \<bar>rat_of_int n\<bar>"
    using ge1 by (simp add: pow2_def)
  then show ?thesis
    by (simp add: ilog2_def q b1 Let_def)
qed

lemma bitlen_le_54:
  assumes "0 < m" "m \<le> 2 ^ 53"
  shows "bitlen m \<le> 54"
proof (rule ccontr)
  assume "\<not> bitlen m \<le> 54"
  then have "55 \<le> bitlen m" by simp
  then have "54 \<le> nat (bitlen m - 1)" by simp
  then have "(2::int) ^ 54 \<le> 2 ^ nat (bitlen m - 1)"
    by (rule power_increasing) simp
  also have "\<dots> \<le> m" using bitlen_bounds [OF assms(1)] by simp
  finally show False using assms(2) by simp
qed

lemma round_double_of_int:
  assumes "\<bar>n\<bar> \<le> 2 ^ 53"
  shows "round_double (of_int n) = Finite (of_int n)"
proof (cases "n = 0")
  case True
  then show ?thesis by (simp add: round_double_def)
next
  case False
  then have pos: "0 < \<bar>n\<bar>" by simp
  define L where "L = bitlen \<bar>n\<bar> - 1"
  have il: "ilog2 (of_int n) = L"
    using ilog2_of_int [OF False] by (simp add: L_def)
  have L0: "0 \<le> L"
    using pos by (simp add: L_def bitlen_alt_def)
  have L53: "L \<le> 53"
    using bitlen_le_54 [OF pos assms] by (simp add: L_def)
  have lo: "2 ^ nat L \<le> \<bar>n\<bar>"
    using bitlen_bounds [OF pos] by (simp add: L_def)
  have e: "max (L - 52) (- 1074) = L - 52"
    using L0 by simp
  have small: "\<not> (2::rat) ^ 1024 \<le> \<bar>rat_of_int n\<bar>"
  proof -
    have "\<bar>rat_of_int n\<bar> \<le> 2 ^ 53"
      using assms by (metis of_int_abs of_int_le_iff of_int_numeral of_int_power)
    also have "\<dots> < (2::rat) ^ 1024"
      by (rule power_strict_increasing) simp_all
    finally show ?thesis by simp
  qed
  have r: "of_int (round_half_even (rat_of_int n / pow2 (L - 52))) * pow2 (L - 52) = rat_of_int n"
  proof (cases "L \<le> 52")
    case True
    then have p: "pow2 (L - 52) = 1 / 2 ^ nat (52 - L)"
      by (cases "L = 52") (simp_all add: pow2_def)
    have "rat_of_int n / pow2 (L - 52) = of_int (n * 2 ^ nat (52 - L))"
      by (simp add: p)
    then show ?thesis
      by (simp only: round_half_even_of_int) (simp add: p)
  next
    case False
    with L53 have L: "L = 53" by simp
    with lo have "2 ^ 53 \<le> \<bar>n\<bar>" by simp
    with assms have "\<bar>n\<bar> = 2 ^ 53" by simp
    then consider "n = 2 ^ 53" | "n = - (2 ^ 53)" by (auto simp: abs_if split: if_splits)
    then show ?thesis
    proof cases
      case 1
      have "rat_of_int n / pow2 (L - 52) = of_int (2 ^ 52)"
        by (simp add: 1 L pow2_def)
      then show ?thesis
        by (simp only: round_half_even_of_int) (simp add: 1 L pow2_def)
    next
      case 2
      have "rat_of_int n / pow2 (L - 52) = of_int (- (2 ^ 52))"
        by (simp add: 2 L pow2_def)
      then show ?thesis
        by (simp only: round_half_even_of_int) (simp add: 2 L pow2_def)
    qed
  qed
  show ?thesis
    using False small
    by (simp add: round_double_def il e r Let_def)
qed


lemma add_of_int:
  assumes "\<bar>a + b\<bar> \<le> 2 ^ 53"
  shows "add (Finite (of_int a)) (Finite (of_int b)) = Finite (of_int (a + b))"
  using round_double_of_int [OF assms] by simp

lemma reduce_foldl: "reduce f acc xs = foldl f acc xs"
  by (induction xs arbitrary: acc) simp_all

lemma reduce_add_of_int:
  assumes "\<bar>a\<bar> + (\<Sum>n\<leftarrow>ns. \<bar>n\<bar>) \<le> 2 ^ 53"
  shows "reduce (\<lambda>acc val. add acc val) (Finite (of_int a)) (map (\<lambda>n. Finite (of_int n)) ns)
         = Finite (of_int (a + sum_list ns))"
  using assms
proof (induction ns arbitrary: a)
  case Nil
  then show ?case by simp
next
  case (Cons n ns)
  have nn: "0 \<le> (\<Sum>n\<leftarrow>ns. \<bar>n\<bar>)"
    by (rule sum_list_nonneg) auto
  have step: "\<bar>a + n\<bar> \<le> 2 ^ 53"
    using Cons.prems nn by simp
  have rest: "\<bar>a + n\<bar> + (\<Sum>n\<leftarrow>ns. \<bar>n\<bar>) \<le> 2 ^ 53"
    using Cons.prems by simp
  let ?f = "\<lambda>n. Finite (rat_of_int n)"
  have "reduce (\<lambda>acc val. add acc val) (Finite (of_int a)) (map ?f (n # ns))
        = reduce (\<lambda>acc val. add acc val) (add (Finite (of_int a)) (Finite (of_int n))) (map ?f ns)"
    by (simp only: list.map reduce.simps)
  also have "\<dots> = reduce (\<lambda>acc val. add acc val) (Finite (of_int (a + n))) (map ?f ns)"
    by (simp only: add_of_int [OF step])
  also have "\<dots> = Finite (of_int (a + n + sum_list ns))"
    by (rule Cons.IH [OF rest])
  finally show ?case
    by (simp add: add.assoc)
qed

lemma sum_of_ints:
  assumes "(\<Sum>n\<leftarrow>ns. \<bar>n\<bar>) \<le> 2 ^ 53"
  shows "sum' (map (\<lambda>n. Finite (of_int n)) ns) = Finite (of_int (sum_list ns))"
  using reduce_add_of_int [of 0 ns] assms by (simp add: sum'_def)

lemma floor_rat_numeral:
  "\<lfloor>numeral a / numeral b :: rat\<rfloor> = numeral a div numeral b"
  by (metis floor_divide_of_int_eq of_int_numeral)

lemma b54: "bitlen 9007199254740993 = 54"
  by code_simp

lemma b1: "bitlen 1 = 1"
  by code_simp

lemma round_odd: "round_double 9007199254740993 = Finite 9007199254740992"
  by (simp add: round_double_def ilog2_def b54 b1 pow2_def round_half_even_def floor_rat_numeral Let_def)

lemma sum_exact_partial_sums:
  assumes "\<forall>k \<le> length rs. round_double (sum_list (take k rs)) = Finite (sum_list (take k rs))"
  shows "sum' (map Finite rs) = Finite (sum_list rs)"
  using assms
proof (induction rs rule: rev_induct)
  case Nil
  then show ?case by (simp add: sum'_def)
next
  case (snoc r rs)
  have "\<forall>k \<le> length rs. round_double (sum_list (take k rs)) = Finite (sum_list (take k rs))"
  proof (intro allI impI)
    fix k assume k: "k \<le> length rs"
    then have "k \<le> length (rs @ [r])" by simp
    with snoc.prems have "round_double (sum_list (take k (rs @ [r]))) = Finite (sum_list (take k (rs @ [r])))"
      by blast
    with k show "round_double (sum_list (take k rs)) = Finite (sum_list (take k rs))" by simp
  qed
  then have ih: "sum' (map Finite rs) = Finite (sum_list rs)"
    by (rule snoc.IH)
  have last: "round_double (sum_list (rs @ [r])) = Finite (sum_list (rs @ [r]))"
    using snoc.prems [rule_format, of "length (rs @ [r])"] by simp
  have "sum' (map Finite (rs @ [r])) = add (sum' (map Finite rs)) (Finite r)"
    by (simp add: sum'_def reduce_foldl)
  also have "\<dots> = round_double (sum_list rs + r)"
    by (simp add: ih)
  also have "\<dots> = Finite (sum_list (rs @ [r]))"
    using last by simp
  finally show ?case .
qed

lemma q32: "quotient_of (3 / 2) = (3, 2)"
  by code_simp

lemma b32: "bitlen 3 = 2" "bitlen 2 = 2"
  by code_simp+

lemma r32: "round_double (3 / 2) = Finite (3 / 2)"
  by (simp add: round_double_def ilog2_def q32 b32 pow2_def round_half_even_def Let_def)

lemma q52: "quotient_of (5 / 2) = (5, 2)"
  by code_simp

lemma b5: "bitlen 5 = 3"
  by code_simp

lemma r52: "round_double (5 / 2) = Finite (5 / 2)"
  by (simp add: round_double_def ilog2_def q52 b5 b32 pow2_def round_half_even_def Let_def)

lemma two_partial_sums:
  assumes "round_double 0 = Finite 0" "round_double a = Finite a" "round_double (a + b) = Finite (a + b)"
  shows "\<forall>k \<le> length [a, b]. round_double (sum_list (take k [a, b])) = Finite (sum_list (take k [a, b]))"
proof (intro allI impI)
  fix k assume "k \<le> length [a, b]"
  then consider "k = 0" | "k = 1" | "k = 2"
    by (auto simp add: le_Suc_eq)
  then show "round_double (sum_list (take k [a, b])) = Finite (sum_list (take k [a, b]))"
    using assms by cases simp_all
qed

subsection \<open>The claims about the summation function\<close>

text \<open>
  C1, as amended. \<^verbatim>\<open>sum\<close> returns the fold from the left of the addition of doubles,
  starting from 0. That is the mathematical sum whenever every partial sum is a double
  (no addition rounds), in particular for integers whose absolute values add up to at
  most \<open>2 ^ 53\<close>. The five examples hold: the empty call gives 0, and
  \<^verbatim>\<open>sum(2, 3)\<close> is 5, \<^verbatim>\<open>sum(1, 2, 3, 4, 5)\<close> is 15, \<^verbatim>\<open>sum(-1, -2, -3)\<close> is -6 and
  \<^verbatim>\<open>sum(1.5, 2.5)\<close> is 4.
\<close>

theorem sum_fold_exact_on_integers:
  "sum' xs = foldl add (Finite 0) xs
   \<and> ((\<forall>k \<le> length rs. round_double (sum_list (take k rs)) = Finite (sum_list (take k rs))) \<longrightarrow>
        sum' (map Finite rs) = Finite (sum_list rs))
   \<and> ((\<Sum>n\<leftarrow>ns. \<bar>n\<bar>) \<le> 2 ^ 53 \<longrightarrow>
        sum' (map (\<lambda>n. Finite (of_int n)) ns) = Finite (of_int (sum_list ns)))
   \<and> sum' [] = Finite 0
   \<and> sum' [Finite 2, Finite 3] = Finite 5
   \<and> sum' [Finite 1, Finite 2, Finite 3, Finite 4, Finite 5] = Finite 15
   \<and> sum' [Finite (- 1), Finite (- 2), Finite (- 3)] = Finite (- 6)
   \<and> sum' [Finite (3 / 2), Finite (5 / 2)] = Finite 4"
proof -
  have fold: "sum' xs = foldl add (Finite 0) xs"
    by (simp add: sum'_def reduce_foldl)
  have ex1: "sum' [Finite 2, Finite 3] = Finite 5"
    using sum_of_ints [of "[2, 3]"] by simp
  have ex2: "sum' [Finite 1, Finite 2, Finite 3, Finite 4, Finite 5] = Finite 15"
    using sum_of_ints [of "[1, 2, 3, 4, 5]"] by simp
  have ex3: "sum' [Finite (- 1), Finite (- 2), Finite (- 3)] = Finite (- 6)"
    using sum_of_ints [of "[- 1, - 2, - 3]"] by simp
  have ex4: "sum' [Finite (3 / 2), Finite (5 / 2)] = Finite 4"
    using round_double_of_int [of 4] by (simp add: sum'_def r32)
  have ex0: "sum' [] = Finite 0"
    by (simp add: sum'_def)
  show ?thesis
    using fold ex0 ex1 ex2 ex3 ex4 sum_of_ints [of ns] sum_exact_partial_sums [of rs] by blast
qed

text \<open>The exact sums of the integers 2, 3 and -7 and of the fractions 1.5 and 2.5.\<close>

theorem sum_fold_exact_on_integers_witness:
  "(\<Sum>n\<leftarrow>[2, 3, - 7 :: int]. \<bar>n\<bar>) \<le> 2 ^ 53
   \<and> sum' [Finite 2, Finite 3, Finite (- 7)] = Finite (- 2)
   \<and> round_double 0 = Finite 0
   \<and> round_double (3 / 2) = Finite (3 / 2)
   \<and> round_double (3 / 2 + 5 / 2) = Finite (3 / 2 + 5 / 2)
   \<and> sum' [Finite (3 / 2), Finite (5 / 2)] = Finite (3 / 2 + 5 / 2)"
proof -
  have r0: "round_double 0 = Finite 0"
    by (simp add: round_double_def)
  have r4: "round_double (3 / 2 + 5 / 2) = Finite (3 / 2 + 5 / 2)"
    using round_double_of_int [of 4] by simp
  have "round_double (sum_list (take k [3 / 2, 5 / 2])) = Finite (sum_list (take k [3 / 2, 5 / 2]))"
    if "k \<le> length [3 / 2, 5 / 2 :: rat]" for k
  proof -
    from that consider "k = 0" | "k = 1" | "k = 2"
      by (auto simp add: le_Suc_eq)
    then show ?thesis
      using r0 r32 r4 by cases simp_all
  qed
  then have parts: "\<forall>k \<le> length [3 / 2, 5 / 2 :: rat].
      round_double (sum_list (take k [3 / 2, 5 / 2])) = Finite (sum_list (take k [3 / 2, 5 / 2]))"
    by blast
  have ints: "(\<Sum>n\<leftarrow>[2, 3, - 7 :: int]. \<bar>n\<bar>) \<le> 2 ^ 53"
    by simp
  show ?thesis
    using parts ints r0 r32 r4 sum_fold_exact_on_integers [of "[]" "[3 / 2, 5 / 2]" "[2, 3, - 7]"]
    by simp
qed

text \<open>
  C1 as stated fails: \<open>2 ^ 53\<close> and 1 are doubles, their mathematical sum
  \<open>2 ^ 53 + 1\<close> is not, and \<^verbatim>\<open>sum(9007199254740992, 1)\<close> is \<open>2 ^ 53\<close>.
\<close>

theorem sum_rounds_counterexample:
  "round_double 9007199254740992 = Finite 9007199254740992
   \<and> round_double 1 = Finite 1
   \<and> sum' [Finite 9007199254740992, Finite 1] = Finite 9007199254740992
   \<and> sum' [Finite 9007199254740992, Finite 1] \<noteq> Finite (9007199254740992 + 1)"
  using round_double_of_int [of 9007199254740992] round_double_of_int [of 1]
  by (simp add: sum'_def round_odd)

text \<open>
  C2. \<^verbatim>\<open>sum\<close> of a sequence with one more number at its end is \<^verbatim>\<open>sum\<close> of the sequence
  plus that number, for all numbers, with the addition of doubles.
\<close>

theorem sum_append_one:
  "sum' (xs @ [y]) = add (sum' xs) y"
  by (simp add: sum'_def reduce_foldl)

text \<open>
  C3, as amended. \<^verbatim>\<open>sum\<close> gives the same number for two orders of the arguments
  whenever no addition rounds in either order (every partial sum is a double), in
  particular for integers whose absolute values add up to at most \<open>2 ^ 53\<close>.
\<close>

theorem sum_permutation_when_exact:
  "(mset ps = mset rs
      \<and> (\<forall>k \<le> length rs. round_double (sum_list (take k rs)) = Finite (sum_list (take k rs)))
      \<and> (\<forall>k \<le> length ps. round_double (sum_list (take k ps)) = Finite (sum_list (take k ps)))
      \<longrightarrow> sum' (map Finite ps) = sum' (map Finite rs))
   \<and> (mset ms = mset ns \<and> (\<Sum>n\<leftarrow>ns. \<bar>n\<bar>) \<le> 2 ^ 53
      \<longrightarrow> sum' (map (\<lambda>n. Finite (of_int n)) ms) = sum' (map (\<lambda>n. Finite (of_int n)) ns))"
proof (intro conjI impI)
  assume a: "mset ps = mset rs
      \<and> (\<forall>k \<le> length rs. round_double (sum_list (take k rs)) = Finite (sum_list (take k rs)))
      \<and> (\<forall>k \<le> length ps. round_double (sum_list (take k ps)) = Finite (sum_list (take k ps)))"
  then have "sum_list ps = sum_list rs"
    by (metis sum_mset_sum_list)
  then show "sum' (map Finite ps) = sum' (map Finite rs)"
    using a by (simp add: sum_exact_partial_sums)
next
  assume a: "mset ms = mset ns \<and> (\<Sum>n\<leftarrow>ns. \<bar>n\<bar>) \<le> 2 ^ 53"
  then have "mset (map abs ms) = mset (map abs ns)" by simp
  then have "(\<Sum>n\<leftarrow>ms. \<bar>n\<bar>) = (\<Sum>n\<leftarrow>ns. \<bar>n\<bar>)"
    by (metis sum_mset_sum_list)
  moreover have "sum_list ms = sum_list ns"
    using a by (metis sum_mset_sum_list)
  ultimately show "sum' (map (\<lambda>n. Finite (of_int n)) ms) = sum' (map (\<lambda>n. Finite (of_int n)) ns)"
    using a by (simp add: sum_of_ints)
qed

text \<open>Two orders of the fractions 1.5 and 2.5, and of the integers 1, 2 and 3.\<close>

theorem sum_permutation_when_exact_witness:
  "mset [5 / 2, 3 / 2 :: rat] = mset [3 / 2, 5 / 2]
   \<and> round_double 0 = Finite 0
   \<and> round_double (3 / 2) = Finite (3 / 2)
   \<and> round_double (5 / 2) = Finite (5 / 2)
   \<and> round_double (3 / 2 + 5 / 2) = Finite (3 / 2 + 5 / 2)
   \<and> sum' [Finite (5 / 2), Finite (3 / 2)] = sum' [Finite (3 / 2), Finite (5 / 2)]
   \<and> mset [3, 1, 2 :: int] = mset [1, 2, 3]
   \<and> (\<Sum>n\<leftarrow>[1, 2, 3 :: int]. \<bar>n\<bar>) \<le> 2 ^ 53
   \<and> sum' [Finite 3, Finite 1, Finite 2] = sum' [Finite 1, Finite 2, Finite 3]"
proof -
  have r0: "round_double 0 = Finite 0"
    by (simp add: round_double_def)
  have r4: "round_double (3 / 2 + 5 / 2) = Finite (3 / 2 + 5 / 2)"
    "round_double (5 / 2 + 3 / 2) = Finite (5 / 2 + 3 / 2)"
    using round_double_of_int [of 4] by simp_all
  have p: "mset [5 / 2, 3 / 2 :: rat] = mset [3 / 2, 5 / 2]"
    by simp
  have e1: "\<forall>k \<le> length [3 / 2, 5 / 2 :: rat].
      round_double (sum_list (take k [3 / 2, 5 / 2])) = Finite (sum_list (take k [3 / 2, 5 / 2]))"
    by (rule two_partial_sums [OF r0 r32 r4(1)])
  have e2: "\<forall>k \<le> length [5 / 2, 3 / 2 :: rat].
      round_double (sum_list (take k [5 / 2, 3 / 2])) = Finite (sum_list (take k [5 / 2, 3 / 2]))"
    by (rule two_partial_sums [OF r0 r52 r4(2)])
  have q: "mset [3, 1, 2 :: int] = mset [1, 2, 3]"
    by simp
  have b: "(\<Sum>n\<leftarrow>[1, 2, 3 :: int]. \<bar>n\<bar>) \<le> 2 ^ 53"
    by simp
  have 1: "sum' (map Finite [5 / 2, 3 / 2]) = sum' (map Finite [3 / 2, 5 / 2])"
    using p e1 e2 sum_permutation_when_exact [where ps = "[5 / 2, 3 / 2]" and rs = "[3 / 2, 5 / 2]",
        THEN conjunct1]
    by blast
  have 2: "sum' (map (\<lambda>n. Finite (of_int n)) [3, 1, 2]) = sum' (map (\<lambda>n. Finite (of_int n)) [1, 2, 3])"
    using q b sum_permutation_when_exact [where ms = "[3, 1, 2]" and ns = "[1, 2, 3]", THEN conjunct2]
    by blast
  show ?thesis
    using p q b r0 r32 r52 r4(1) 1 2 by simp
qed

text \<open>
  C3 as stated fails, also for integers: \<^verbatim>\<open>sum(9007199254740992, 1, -9007199254740992)\<close>
  is 0, and \<^verbatim>\<open>sum(9007199254740992, -9007199254740992, 1)\<close> is 1.
\<close>

theorem sum_reorder_counterexample:
  "mset [Finite 9007199254740992, Finite 1, Finite (- 9007199254740992)]
     = mset [Finite 9007199254740992, Finite (- 9007199254740992), Finite 1]
   \<and> sum' [Finite 9007199254740992, Finite 1, Finite (- 9007199254740992)] = Finite 0
   \<and> sum' [Finite 9007199254740992, Finite (- 9007199254740992), Finite 1] = Finite 1"
  using round_double_of_int [of 9007199254740992] round_double_of_int [of 1] round_double_of_int [of 0]
  by (simp add: sum'_def round_odd)

end
